theory Spec2Isabelle
  imports Main "HOL-Library.Char_ord" "HOL-Library.List_Lexorder" "HOL-Library.Multiset"
begin

section \<open>Data model of main.py\<close>

text \<open>
  A Python \<open>str\<close> is modelled as a \<open>string\<close>: one \<open>char\<close> stands for one code
  point, so \<open>length\<close> is Python's \<open>len\<close>, \<open>take 50\<close> is the slice \<open>[:50]\<close>, and
  the order of \<open>HOL-Library.List_Lexorder\<close> over \<open>HOL-Library.Char_ord\<close> is Python's
  order on strings (lexicographic by code point, a proper prefix first).
\<close>

subsection \<open>Exceptions\<close>

text \<open>
  The exception classes that the program raises, catches by name, or lets through.
  The string is what \<open>str(e)\<close> returns; \<open>HTTPException\<close> carries \<open>status_code\<close> and
  \<open>detail\<close>. \<open>BackendError\<close> stands for whatever subclass of \<open>Exception\<close> the
  ollama client raises. The texts of \<open>TypeError\<close>, \<open>KeyError\<close> and
  \<open>AttributeError\<close> are those of CPython 3.11.
\<close>

datatype error =
    JSONDecodeError string
  | KeyError string
  | AttributeError string
  | TypeError string
  | OSError string
  | UnicodeDecodeError string
  | BackendError string
  | HTTPException nat string

fun str :: "error \<Rightarrow> string" where
  "str (JSONDecodeError m) = m"
| "str (KeyError m) = m"
| "str (AttributeError m) = m"
| "str (TypeError m) = m"
| "str (OSError m) = m"
| "str (UnicodeDecodeError m) = m"
| "str (BackendError m) = m"
| "str (HTTPException c m) = m"

definition quoted :: "string \<Rightarrow> string" where
  "quoted s = CHR 0x27 # s @ [CHR 0x27]"

subsection \<open>JSON values and dictionaries\<close>

text \<open>
  What \<open>json.load\<close> returns, and what the backend delivers. A Python \<open>dict\<close> is an
  association list in insertion order. Numbers are integers here: floats are left out
  of the model.
\<close>

datatype json =
    JNull
  | JBool bool
  | JInt int
  | JStr string
  | JArr "json list"
  | JObj "(string \<times> json) list"

fun type_name :: "json \<Rightarrow> string" where
  "type_name JNull = ''NoneType''"
| "type_name (JBool b) = ''bool''"
| "type_name (JInt i) = ''int''"
| "type_name (JStr s) = ''str''"
| "type_name (JArr xs) = ''list''"
| "type_name (JObj d) = ''dict''"

text \<open>\<open>k in d\<close>, \<open>d[k]\<close> (raises \<open>KeyError\<close>) and \<open>d.get(k, default)\<close> on a dict.\<close>

definition contains :: "('k \<times> 'v) list \<Rightarrow> 'k \<Rightarrow> bool" where
  "contains d k = (k \<in> set (map fst d))"

definition getitem :: "(string \<times> 'v) list \<Rightarrow> string \<Rightarrow> error + 'v" where
  "getitem d k = (case map_of d k of None \<Rightarrow> Inl (KeyError (quoted k)) | Some v \<Rightarrow> Inr v)"

definition dict_get :: "('k \<times> 'v) list \<Rightarrow> 'k \<Rightarrow> 'v \<Rightarrow> 'v" where
  "dict_get d k dflt = (case map_of d k of None \<Rightarrow> dflt | Some v \<Rightarrow> v)"

subsection \<open>Python's comparisons of decoded values\<close>

text \<open>
  \<open>a == b\<close>: \<open>True\<close> and \<open>False\<close> are the integers 1 and 0, lists are equal when
  their entries are, dicts when they hold equal values under the same keys, whatever the
  order. Two values are equal exactly when their normal forms are the same.
\<close>

fun norm :: "json \<Rightarrow> json" where
  "norm (JBool b) = JInt (if b then 1 else 0)"
| "norm (JArr xs) = JArr (map norm xs)"
| "norm (JObj d) = JObj (sort_key fst (map (\<lambda>(k, v). (k, norm v)) d))"
| "norm v = v"

definition py_eq :: "json \<Rightarrow> json \<Rightarrow> bool" where
  "py_eq a b = (norm a = norm b)"

text \<open>
  \<open>a < b\<close>: defined between two strings (lexicographic), between two numbers
  (\<open>bool\<close> is a subclass of \<open>int\<close>), and between two lists (decided at the first index
  where the entries are not equal, else by the lengths); every other comparison raises
  \<open>TypeError\<close>. The text of that exception names the two types.
\<close>

fun num_of :: "json \<Rightarrow> int option" where
  "num_of (JInt i) = Some i"
| "num_of (JBool b) = Some (if b then 1 else 0)"
| "num_of v = None"

definition not_supported :: "json \<Rightarrow> json \<Rightarrow> error" where
  "not_supported a b =
     TypeError (quoted ''<'' @ '' not supported between instances of ''
                @ quoted (type_name a) @ '' and '' @ quoted (type_name b))"

fun py_lt :: "json \<Rightarrow> json \<Rightarrow> error + bool"
  and py_lt_list :: "json list \<Rightarrow> json list \<Rightarrow> error + bool" where
  "py_lt (JStr a) (JStr b) = Inr (a < b)"
| "py_lt (JArr xs) (JArr ys) = py_lt_list xs ys"
| "py_lt a b =
     (case (num_of a, num_of b) of
        (Some i, Some j) \<Rightarrow> Inr (i < j)
      | _ \<Rightarrow> Inl (not_supported a b))"
| "py_lt_list [] [] = Inr False"
| "py_lt_list [] (y # ys) = Inr True"
| "py_lt_list (x # xs) [] = Inr False"
| "py_lt_list (x # xs) (y # ys) = (if py_eq x y then py_lt_list xs ys else py_lt x y)"

text \<open>
  \<open>k in v\<close> and \<open>v[k]\<close> for a string \<open>k\<close> and any decoded value \<open>v\<close>: key lookup in
  a dict, substring test on a string, membership in a list; the other values are not
  containers, and only a dict can be subscripted with a string.
\<close>

fun is_substring :: "string \<Rightarrow> string \<Rightarrow> bool" where
  "is_substring p [] = (p = [])"
| "is_substring p (c # cs) = (take (length p) (c # cs) = p \<or> is_substring p cs)"

fun py_in :: "string \<Rightarrow> json \<Rightarrow> error + bool" where
  "py_in k (JObj d) = Inr (contains d k)"
| "py_in k (JStr s) = Inr (is_substring k s)"
| "py_in k (JArr xs) = Inr (\<exists>x \<in> set xs. py_eq (JStr k) x)"
| "py_in k v = Inl (TypeError (''argument of type '' @ quoted (type_name v) @ '' is not iterable''))"

fun py_subscript :: "json \<Rightarrow> string \<Rightarrow> error + json" where
  "py_subscript (JObj d) k = getitem d k"
| "py_subscript (JStr s) k =
     Inl (TypeError (''string indices must be integers, not '' @ quoted ''str''))"
| "py_subscript (JArr xs) k =
     Inl (TypeError ''list indices must be integers or slices, not str'')"
| "py_subscript v k = Inl (TypeError (quoted (type_name v) @ '' object is not subscriptable''))"

subsection \<open>Request bodies (the pydantic models)\<close>

record Message =
  role :: string
  content :: string

record ChatRequest =
  model_key :: string
  messages :: "Message list"

text \<open>
  The field \<open>id\<close> of \<open>SaveChatRequest\<close> is named \<open>id'\<close>, since \<open>id\<close> is HOL's identity
  function. \<open>None\<close> is an omitted (or null) optional field.
\<close>

record SaveChatRequest =
  id' :: "string option"
  title :: "string option"
  model :: string
  messages :: "Message list"

section \<open>Model registry\<close>

definition MODELS :: "(string \<times> string) list" where
  "MODELS = [(''general'', ''qwen2.5:3b''), (''code'', ''qwen2.5-coder:3b'')]"

definition get_model_name :: "string \<Rightarrow> string" where
  "get_model_name key = dict_get MODELS key (dict_get MODELS ''general'' [])"

section \<open>Chat relay: \<open>chat_stream\<close>\<close>

text \<open>
  The ollama client is outside the program, so what it does is a parameter of the model:
  a function from the model name and the forwarded messages to the behaviour of the call
  \<open>ollama.chat(model=..., messages=..., stream=True)\<close>. The call either raises, or returns
  a stream: the increments the iteration delivers, each one a chunk or an exception raised
  by the iterator (after which a Python generator delivers nothing more).

  A chunk is a dict of decoded values, loosely structured: its field \<open>message\<close>, if it
  has one, may hold an object, \<open>null\<close> or any other value, and so may the field
  \<open>content\<close> of a message object. What the generator yields is therefore a decoded
  value as well (a string, for a backend that keeps to its format).
\<close>

type_synonym chunk = "(string \<times> json) list"

datatype event = Chunk chunk | Raise error

datatype call = CallRaises error | Returns "event list"

type_synonym backend = "string \<Rightarrow> (string \<times> string) list list \<Rightarrow> call"

text \<open>
  Line 72: \<open>[{"role": m.role, "content": m.content} for m in request.messages]\<close>, and
  lines 75-76: \<open>if len(messages) > 20: messages = messages[-20:]\<close>. The slice \<open>[-20:]\<close>
  of a list longer than 20 starts at index \<open>len - 20\<close>.
\<close>

definition message_dict :: "Message \<Rightarrow> (string \<times> string) list" where
  "message_dict m = [(''role'', role m), (''content'', content m)]"

definition context_messages :: "ChatRequest \<Rightarrow> (string \<times> string) list list" where
  "context_messages request =
     (let msgs = map message_dict (ChatRequest.messages request)
      in if length msgs > 20 then drop (length msgs - 20) msgs else msgs)"

text \<open>
  One pass of the loop body, lines 88-89:
  \<open>if "message" in chunk and "content" in chunk["message"]: yield chunk["message"]["content"]\<close>.
  The result is the list of values yielded by this pass (none or one), or the exception
  that the membership test or a subscript raises.
\<close>

definition relay_chunk :: "chunk \<Rightarrow> error + json list" where
  "relay_chunk chunk =
     (if contains chunk ''message'' then
        (case getitem chunk ''message'' of
           Inl e \<Rightarrow> Inl e
         | Inr message \<Rightarrow>
             (case py_in ''content'' message of
                Inl e \<Rightarrow> Inl e
              | Inr False \<Rightarrow> Inr []
              | Inr True \<Rightarrow>
                  (case py_subscript message ''content'' of
                     Inl e \<Rightarrow> Inl e
                   | Inr c \<Rightarrow> Inr [c])))
      else Inr [])"

text \<open>
  The \<open>for\<close> loop of the \<open>try\<close> block, lines 87-89: the values yielded so far, and the
  exception that leaves the loop, if one does.
\<close>

fun relay_loop :: "event list \<Rightarrow> json list \<times> error option" where
  "relay_loop [] = ([], None)"
| "relay_loop (Raise e # rest) = ([], Some e)"
| "relay_loop (Chunk chunk # rest) =
     (case relay_chunk chunk of
        Inl e \<Rightarrow> ([], Some e)
      | Inr out \<Rightarrow> (case relay_loop rest of (outs, r) \<Rightarrow> (out @ outs, r)))"

text \<open>The \<open>try\<close> block, lines 82-89: the call, then the loop.\<close>

definition try_block :: "call \<Rightarrow> json list \<times> error option" where
  "try_block c = (case c of CallRaises e \<Rightarrow> ([], Some e) | Returns stream \<Rightarrow> relay_loop stream)"

text \<open>
  The generator \<open>generate\<close>, lines 78-91. Its result is the sequence of fragments it
  yields and the exception that escapes from it, if any: \<open>except Exception as e\<close>
  handles whatever left the \<open>try\<close> block by yielding \<open>f"Error: {str(e)}"\<close>.
\<close>

definition generate :: "backend \<Rightarrow> string \<Rightarrow> (string \<times> string) list list \<Rightarrow> json list \<times> error option" where
  "generate ollama_chat model_name msgs =
     (case try_block (ollama_chat model_name msgs) of
        (outs, None) \<Rightarrow> (outs, None)
      | (outs, Some e) \<Rightarrow> (outs @ [JStr (''Error: '' @ str e)], None))"

text \<open>
  \<open>chat_stream\<close>, lines 67-93: what the generator handed to the \<open>StreamingResponse\<close>
  yields.
\<close>

definition chat_stream :: "backend \<Rightarrow> ChatRequest \<Rightarrow> json list \<times> error option" where
  "chat_stream ollama_chat request =
     generate ollama_chat (get_model_name (model_key request)) (context_messages request)"

section \<open>Record store\<close>

subsection \<open>The storage directory and the operating system\<close>

text \<open>
  The file system is outside the program. A state of \<open>SAVED_CHATS_DIR\<close> lists the paths
  below it (relative to it, in the order in which the directory is scanned), each with
  what \<open>open(path, "r", encoding="utf-8")\<close> followed by \<open>json.load\<close> does there: return
  the decoded value or raise (\<open>JSONDecodeError\<close> for text that is not JSON,
  \<open>UnicodeDecodeError\<close> or \<open>OSError\<close> when the file cannot be read as text). Two paths
  are the same file when they are the same string. No theorem depends on the scan order.
\<close>

type_synonym reading = "error + json"

type_synonym store = "(string \<times> reading) list"

text \<open>
  What the functions take from their environment: the string \<open>str(uuid.uuid4())\<close>; the
  string \<open>datetime.now().isoformat()\<close>; the answer of the operating system to
  \<open>os.stat\<close> on a path that it does not accept (the text of the \<open>OSError\<close>, for
  instance for a name longer than the file system allows; \<open>None\<close> when \<open>stat\<close> answers
  or reports that there is no such file); and whether a path that \<open>stat\<close> accepts can be
  opened for writing.
\<close>

record env =
  uuid4 :: string
  now :: string
  stat_error :: "string \<Rightarrow> string option"
  writable :: "string \<Rightarrow> bool"

text \<open>
  \<open>filepath.exists()\<close>: up to Python 3.12 it calls \<open>os.stat\<close>, takes "no such file" for
  \<open>False\<close> and lets any other \<open>OSError\<close> through. (From Python 3.13 on it returns
  \<open>False\<close> there: an environment whose \<open>stat_error\<close> is \<open>None\<close> everywhere.)
\<close>

definition exists :: "env \<Rightarrow> store \<Rightarrow> string \<Rightarrow> error + bool" where
  "exists e d filepath =
     (case stat_error e filepath of
        Some msg \<Rightarrow> Inl (OSError msg)
      | None \<Rightarrow> Inr (contains d filepath))"

text \<open>The read of lines 101-102 and 124-125.\<close>

definition load :: "store \<Rightarrow> string \<Rightarrow> reading" where
  "load d filepath =
     (case map_of d filepath of None \<Rightarrow> Inl (OSError ''No such file or directory'') | Some f \<Rightarrow> f)"

text \<open>
  \<open>open(filepath, "w")\<close>: the exception it raises, if any. A path that \<open>stat\<close> does not
  accept cannot be opened either.
\<close>

definition open_w :: "env \<Rightarrow> string \<Rightarrow> error option" where
  "open_w e filepath =
     (case stat_error e filepath of
        Some msg \<Rightarrow> Some (OSError msg)
      | None \<Rightarrow> if writable e filepath then None else Some (OSError ''Permission denied''))"

text \<open>
  \<open>SAVED_CHATS_DIR.glob("*.json")\<close>: the direct children of the directory whose name ends
  in \<open>.json\<close>; pathlib does not treat a leading dot specially.
\<close>

definition endswith :: "string \<Rightarrow> string \<Rightarrow> bool" where
  "endswith s suffix =
     (length suffix \<le> length s \<and> drop (length s - length suffix) s = suffix)"

definition glob_json :: "store \<Rightarrow> (string \<times> reading) list" where
  "glob_json d = filter (\<lambda>(name, f). CHR ''/'' \<notin> set name \<and> endswith name ''.json'') d"

text \<open>
  \<open>PurePath.stem\<close>: with \<open>i = name.rfind('.')\<close>, the stem is \<open>name[:i]\<close> if
  \<open>0 < i < len(name) - 1\<close>, and the whole name otherwise.
\<close>

definition rfind_dot :: "string \<Rightarrow> nat option" where
  "rfind_dot name =
     (if CHR ''.'' \<in> set name
      then Some (length name - Suc (length (takeWhile (\<lambda>c. c \<noteq> CHR ''.'') (rev name))))
      else None)"

definition stem :: "string \<Rightarrow> string" where
  "stem name =
     (case rfind_dot name of
        None \<Rightarrow> name
      | Some i \<Rightarrow> if 0 < i \<and> i < length name - 1 then take i name else name)"

text \<open>\<open>SAVED_CHATS_DIR / f"{chat_id}.json"\<close>, lines 119, 154 and 163.\<close>

definition chat_path :: "string \<Rightarrow> string" where
  "chat_path chat_id = chat_id @ ''.json''"

subsection \<open>\<open>get_chats\<close>\<close>

type_synonym summary = "(string \<times> json) list"

text \<open>The dict built in lines 103-108, from the decoded object and the file's path.\<close>

definition summary_of :: "string \<Rightarrow> (string \<times> json) list \<Rightarrow> summary" where
  "summary_of filepath data =
     [(''id'', dict_get data ''id'' (JStr (stem filepath))),
      (''title'', dict_get data ''title'' (JStr ''Untitled'')),
      (''timestamp'', dict_get data ''timestamp'' (JStr [])),
      (''model'', dict_get data ''model'' (JStr ''general''))]"

text \<open>
  The body of the \<open>try\<close> in lines 101-108. Only a dict has the method \<open>get\<close>: on any
  other decoded value \<open>data.get\<close> raises \<open>AttributeError\<close>.
\<close>

fun load_summary :: "string \<Rightarrow> reading \<Rightarrow> error + summary" where
  "load_summary filepath (Inl e) = Inl e"
| "load_summary filepath (Inr (JObj data)) = Inr (summary_of filepath data)"
| "load_summary filepath (Inr v) =
     Inl (AttributeError (quoted (type_name v) @ '' object has no attribute '' @ quoted ''get''))"

text \<open>\<open>except (json.JSONDecodeError, KeyError): continue\<close>, lines 109-110.\<close>

fun caught :: "error \<Rightarrow> bool" where
  "caught (JSONDecodeError m) = True"
| "caught (KeyError m) = True"
| "caught e = False"

text \<open>The loop of lines 99-110, with the list \<open>chats\<close> as accumulator.\<close>

fun scan_files :: "(string \<times> reading) list \<Rightarrow> summary list \<Rightarrow> error + summary list" where
  "scan_files [] chats = Inr chats"
| "scan_files ((filepath, f) # rest) chats =
     (case load_summary filepath f of
        Inr x \<Rightarrow> scan_files rest (chats @ [x])
      | Inl e \<Rightarrow> if caught e then scan_files rest chats else Inl e)"

text \<open>
  Line 113: \<open>chats.sort(key=lambda x: x.get("timestamp", ""), reverse=True)\<close>.
  \<open>list.sort\<close> is stable and compares the keys with Python's \<open>a < b\<close> only. With
  \<open>reverse=True\<close> it reverses the list, sorts it ascending and stably, and reverses the
  result, which gives descending keys with entries of equal keys in their original
  order. The stable ascending sort is written as an insertion sort; any stable sort
  returns the same list.

  A comparison that is not supported raises \<open>TypeError\<close> out of \<open>list.sort\<close>.
  The sort cannot order two entries without comparing their keys, directly or through the
  keys between them, and two keys that cannot be compared have no key between them; so
  \<open>list.sort\<close> returns exactly when every two keys of the list can be compared, and
  a list of fewer than two entries is returned as it is. Which comparison CPython makes
  first, and hence which two types the text of the exception names, is not part of the
  model: the exception is the one of the first unsupported pair in list order.
\<close>

definition timestamp_key :: "summary \<Rightarrow> json" where
  "timestamp_key x = dict_get x ''timestamp'' (JStr [])"

fun insort_lt :: "('a \<Rightarrow> 'a \<Rightarrow> bool) \<Rightarrow> 'a \<Rightarrow> 'a list \<Rightarrow> 'a list" where
  "insort_lt lt x [] = [x]"
| "insort_lt lt x (y # ys) = (if lt y x then y # insort_lt lt x ys else x # y # ys)"

definition sort_lt :: "('a \<Rightarrow> 'a \<Rightarrow> bool) \<Rightarrow> 'a list \<Rightarrow> 'a list" where
  "sort_lt lt xs = foldr (insort_lt lt) xs []"

definition unsupported :: "json \<Rightarrow> json \<Rightarrow> error option" where
  "unsupported a b =
     (case py_lt a b of
        Inl e \<Rightarrow> Some e
      | Inr v \<Rightarrow> (case py_lt b a of Inl e \<Rightarrow> Some e | Inr w \<Rightarrow> None))"

fun first_unsupported :: "json list \<Rightarrow> error option" where
  "first_unsupported [] = None"
| "first_unsupported (k # ks) =
     (case List.map_filter (unsupported k) ks of
        e # es \<Rightarrow> Some e
      | [] \<Rightarrow> first_unsupported ks)"

definition sort_chats :: "summary list \<Rightarrow> error + summary list" where
  "sort_chats chats =
     (case first_unsupported (map timestamp_key chats) of
        Some e \<Rightarrow> Inl e
      | None \<Rightarrow>
          Inr (rev (sort_lt (\<lambda>x y. py_lt (timestamp_key x) (timestamp_key y) = Inr True)
                            (rev chats))))"

definition get_chats :: "store \<Rightarrow> error + summary list" where
  "get_chats d =
     (case scan_files (glob_json d) [] of
        Inl e \<Rightarrow> Inl e
      | Inr chats \<Rightarrow> sort_chats chats)"

subsection \<open>\<open>get_chat\<close>\<close>

text \<open>
  Lines 119-128. The test \<open>filepath.exists()\<close> stands before the \<open>try\<close>: an
  \<open>OSError\<close> it raises is not handled and leaves the function as it is.
\<close>

definition get_chat :: "env \<Rightarrow> store \<Rightarrow> string \<Rightarrow> error + json" where
  "get_chat e d chat_id =
     (let filepath = chat_path chat_id
      in case exists e d filepath of
           Inl err \<Rightarrow> Inl err
         | Inr False \<Rightarrow> Inl (HTTPException 404 ''Chat not found'')
         | Inr True \<Rightarrow>
             (case load d filepath of
                Inr data \<Rightarrow> Inr data
              | Inl err \<Rightarrow> Inl (HTTPException 500 (str err))))"

subsection \<open>\<open>save_chat\<close>\<close>

text \<open>Python's truth value of an \<open>Optional[str]\<close>: \<open>None\<close> and \<open>""\<close> are false.\<close>

fun truthy :: "string option \<Rightarrow> bool" where
  "truthy None = False"
| "truthy (Some s) = (s \<noteq> [])"

text \<open>Line 133: \<open>chat.id if chat.id else str(uuid.uuid4())\<close>.\<close>

definition new_chat_id :: "env \<Rightarrow> SaveChatRequest \<Rightarrow> string" where
  "new_chat_id e chat = (case id' chat of Some s \<Rightarrow> if s \<noteq> [] then s else uuid4 e | None \<Rightarrow> uuid4 e)"

text \<open>Lines 136-144: the title that is stored and returned (\<open>None\<close> is Python's \<open>None\<close>).\<close>

definition derive_title :: "SaveChatRequest \<Rightarrow> string option" where
  "derive_title chat =
     (if \<not> truthy (title chat) \<and> messages chat \<noteq> [] then
        (case filter (\<lambda>m. role m = ''user'') (messages chat) of
           m # user_msgs \<Rightarrow>
             (let first_msg = content m
              in Some (if length first_msg > 50 then take 50 first_msg @ ''...'' else first_msg))
         | [] \<Rightarrow> Some ''Untitled Chat'')
      else title chat)"

fun opt_json :: "string option \<Rightarrow> json" where
  "opt_json None = JNull"
| "opt_json (Some s) = JStr s"

text \<open>\<open>m.dict()\<close> and the dict \<open>data\<close> of lines 146-152.\<close>

definition message_json :: "Message \<Rightarrow> json" where
  "message_json m = JObj [(''role'', JStr (role m)), (''content'', JStr (content m))]"

definition chat_data :: "env \<Rightarrow> SaveChatRequest \<Rightarrow> (string \<times> json) list" where
  "chat_data e chat =
     [(''id'', JStr (new_chat_id e chat)),
      (''title'', opt_json (derive_title chat)),
      (''model'', JStr (model chat)),
      (''timestamp'', JStr (now e)),
      (''messages'', JArr (map message_json (messages chat)))]"

text \<open>
  Lines 155-156 write the file: afterwards the path holds the JSON text of \<open>data\<close>, which
  \<open>json.load\<close> decodes to \<open>data\<close> again (\<open>data\<close> is built from strings, \<open>None\<close>, lists
  and dicts with string keys). An existing file is replaced; a new one is listed last.
\<close>

fun write_file :: "store \<Rightarrow> string \<Rightarrow> reading \<Rightarrow> store" where
  "write_file [] filepath f = [(filepath, f)]"
| "write_file ((name, g) # rest) filepath f =
     (if name = filepath then (filepath, f) # rest else (name, g) # write_file rest filepath f)"

definition save_chat :: "env \<Rightarrow> store \<Rightarrow> SaveChatRequest \<Rightarrow> error + (summary \<times> store)" where
  "save_chat e d chat =
     (let chat_id = new_chat_id e chat;
          title = derive_title chat;
          data = chat_data e chat;
          filepath = chat_path chat_id
      in case open_w e filepath of
           Some err \<Rightarrow> Inl err
         | None \<Rightarrow>
             Inr ([(''id'', JStr chat_id), (''title'', opt_json title)],
                  write_file d filepath (Inr (JObj data))))"

section \<open>Notions of the specification\<close>

text \<open>
  The content field of a backend increment, in the words of the specification: the
  field \<open>content\<close> of its message object, absent when the increment has no message
  object or the message object has no such field. The loop body supports the field
  \<open>message\<close> of an increment when the increment has none, when it holds an object,
  and when it holds a string or a list on which Python's test \<open>"content" in\<close> is
  false; it does not when the field holds \<open>null\<close>, a number, or a string or list
  with \<open>content\<close> in it.
\<close>

definition content_of :: "chunk \<Rightarrow> json option" where
  "content_of chunk =
     (case map_of chunk ''message'' of
        Some (JObj message) \<Rightarrow> map_of message ''content''
      | _ \<Rightarrow> None)"

definition message_supported :: "chunk \<Rightarrow> bool" where
  "message_supported chunk =
     (case map_of chunk ''message'' of
        None \<Rightarrow> True
      | Some (JObj message) \<Rightarrow> True
      | Some (JStr s) \<Rightarrow> \<not> is_substring ''content'' s
      | Some (JArr xs) \<Rightarrow> \<not> (\<exists>x \<in> set xs. py_eq (JStr ''content'') x)
      | Some v \<Rightarrow> False)"


definition summaries :: "(string \<times> reading) list \<Rightarrow> summary list" where
  "summaries files =
     concat (map (\<lambda>(filepath, f).
        case f of Inr (JObj data) \<Rightarrow> [summary_of filepath data] | _ \<Rightarrow> []) files)"

definition listed :: "store \<Rightarrow> summary list" where
  "listed d = summaries (glob_json d)"

text \<open>
  Timestamps can be compared when Python's \<open>a < b\<close> is supported between every two of
  them, as it is when all are strings or all are numbers.
\<close>

definition comparable :: "json \<Rightarrow> json \<Rightarrow> bool" where
  "comparable a b = (\<not> isl (py_lt a b) \<and> \<not> isl (py_lt b a))"

fun pairwise_comparable :: "json list \<Rightarrow> bool" where
  "pairwise_comparable [] = True"
| "pairwise_comparable (k # ks) = ((\<forall>k' \<in> set ks. comparable k k') \<and> pairwise_comparable ks)"

fun is_str :: "json \<Rightarrow> bool" where
  "is_str (JStr s) = True"
| "is_str v = False"

fun str_of :: "json \<Rightarrow> string" where
  "str_of (JStr s) = s"
| "str_of v = []"

section \<open>Environment of the examples\<close>

text \<open>
  A fixed identifier and clock reading, and a storage directory without
  subdirectories on a file system that takes names of up to 255 characters, under
  Python 3.11: \<open>stat\<close> raises on longer paths, and a path can be written unless it has
  a separator.
\<close>

definition example_env :: env where
  "example_env =
     \<lparr>uuid4 = ''1b4e28ba-2fa1-41d2-983f-0e6c0a6f3c11'',
      now = ''2024-05-01T12:00:00.000000'',
      stat_error = (\<lambda>filepath. if length filepath > 255
                                 then Some ''[Errno 36] File name too long'' else None),
      writable = (\<lambda>filepath. CHR ''/'' \<notin> set filepath)\<rparr>"


section \<open>The chat relay\<close>

lemma contains_map_of: "contains d k \<longleftrightarrow> map_of d k \<noteq> None"
  by (simp add: contains_def map_of_eq_None_iff)

text \<open>
  On an increment whose field \<open>message\<close> the loop body supports, the body yields the
  content field if there is one and nothing otherwise; the subscripts do not raise.
  On any other increment the membership test or the subscript raises.
\<close>

lemma relay_chunk_supported:
  assumes "message_supported chunk"
  shows "relay_chunk chunk = Inr (case content_of chunk of None \<Rightarrow> [] | Some c \<Rightarrow> [c])"
proof (cases "map_of chunk ''message''")
  case None
  then show ?thesis
    by (simp add: relay_chunk_def content_of_def contains_map_of)
next
  case (Some message)
  with assms show ?thesis
    by (cases message)
      (auto simp: relay_chunk_def content_of_def message_supported_def contains_map_of
        getitem_def split: option.splits)
qed


lemma content_of_supported: "content_of chunk = Some c \<Longrightarrow> message_supported chunk"
  by (auto simp: content_of_def message_supported_def split: option.splits json.splits)

lemma relay_loop_chunks:
  "\<forall>c \<in> set chunks. message_supported c \<Longrightarrow>
   relay_loop (map Chunk chunks @ rest) =
     (case relay_loop rest of (outs, r) \<Rightarrow> (List.map_filter content_of chunks @ outs, r))"
  by (induction chunks)
    (auto simp: relay_chunk_supported List.map_filter_simps split: option.splits prod.splits)


lemma generate_no_exception: "snd (generate ollama_chat model_name msgs) = None"
  by (simp add: generate_def split: prod.splits option.splits)

lemma map_filter_Some: "map f xs = map Some ys \<Longrightarrow> List.map_filter f xs = ys"
  by (induction xs arbitrary: ys) (auto simp: List.map_filter_simps)

lemma map_Some_supported:
  "map content_of chunks = map Some fs \<Longrightarrow> \<forall>c \<in> set chunks. message_supported c"
proof (induction chunks arbitrary: fs)
  case Nil
  then show ?case by simp
next
  case (Cons c chunks)
  then obtain f fs' where "fs = f # fs'" "content_of c = Some f"
    "map content_of chunks = map Some fs'"
    by (cases fs) auto
  with Cons.IH show ?case
    by (auto intro: content_of_supported)
qed



text \<open>
  C1. Whatever the request and the backend: no exception leaves the stream that
  \<open>chat_stream\<close> returns. If the backend call raises \<open>e\<close> on invocation, the stream is the
  single fragment \<open>"Error: " + str(e)\<close>. If the backend raises \<open>e\<close> after the increments
  \<open>chunks\<close>, and these increments carry the fragments \<open>f1..fn\<close>, the stream is \<open>f1..fn\<close>
  followed by the one fragment \<open>"Error: " + str(e)\<close>, and ends there (whatever the
  backend might have delivered afterwards). More generally, if the backend raises after
  increments whose field \<open>message\<close> the loop body supports, the stream is the content
  fields of those increments that have one, in order, followed by that error fragment.
\<close>

theorem chat_stream_backend_failure:
  "snd (chat_stream ollama_chat request) = None \<and>
   (ollama_chat (get_model_name (model_key request)) (context_messages request) = CallRaises e \<longrightarrow>
      chat_stream ollama_chat request = ([JStr (''Error: '' @ str e)], None)) \<and>
   (ollama_chat (get_model_name (model_key request)) (context_messages request)
        = Returns (map Chunk chunks @ Raise e # rest) \<longrightarrow>
      (map content_of chunks = map Some fs \<longrightarrow>
         chat_stream ollama_chat request = (fs @ [JStr (''Error: '' @ str e)], None)) \<and>
      ((\<forall>c \<in> set chunks. message_supported c) \<longrightarrow>
         chat_stream ollama_chat request
           = (List.map_filter content_of chunks @ [JStr (''Error: '' @ str e)], None)))"
proof (intro conjI impI)
  show "snd (chat_stream ollama_chat request) = None"
    unfolding chat_stream_def by (rule generate_no_exception)
next
  assume "ollama_chat (get_model_name (model_key request)) (context_messages request) = CallRaises e"
  then show "chat_stream ollama_chat request = ([JStr (''Error: '' @ str e)], None)"
    by (simp add: chat_stream_def generate_def try_block_def)
next
  assume r: "ollama_chat (get_model_name (model_key request)) (context_messages request)
        = Returns (map Chunk chunks @ Raise e # rest)"
  have *: "chat_stream ollama_chat request
      = (List.map_filter content_of chunks @ [JStr (''Error: '' @ str e)], None)"
    if "\<forall>c \<in> set chunks. message_supported c"
    using r that by (simp add: chat_stream_def generate_def try_block_def relay_loop_chunks)
  {
    assume "\<forall>c \<in> set chunks. message_supported c"
    then show "chat_stream ollama_chat request
      = (List.map_filter content_of chunks @ [JStr (''Error: '' @ str e)], None)"
      by (rule *)
  }
  assume fs: "map content_of chunks = map Some fs"
  then have "List.map_filter content_of chunks = fs"
    by (rule map_filter_Some)
  moreover from fs have "\<forall>c \<in> set chunks. message_supported c"
    by (rule map_Some_supported)
  ultimately show "chat_stream ollama_chat request = (fs @ [JStr (''Error: '' @ str e)], None)"
    using * by simp
qed

text \<open>
  The example of the specification: the backend emits \<open>"Hel"\<close>, \<open>"lo"\<close> and then
  raises; and a backend that raises when it is called.
\<close>

theorem chat_stream_backend_failure_witness:
  "chat_stream
     (\<lambda>model_name msgs. Returns
        [Chunk [(''message'', JObj [(''role'', JStr ''assistant''), (''content'', JStr ''Hel'')])],
         Chunk [(''message'', JObj [(''role'', JStr ''assistant''), (''content'', JStr ''lo'')])],
         Raise (BackendError ''connection lost'')])
     \<lparr>model_key = ''general'', messages = []\<rparr>
     = ([JStr ''Hel'', JStr ''lo'', JStr ''Error: connection lost''], None) \<and>
   chat_stream (\<lambda>model_name msgs. CallRaises (BackendError ''model not found''))
     \<lparr>model_key = ''code'', messages = []\<rparr>
     = ([JStr ''Error: model not found''], None)"
  using chat_stream_backend_failure [of
      "\<lambda>model_name msgs. Returns
        [Chunk [(''message'', JObj [(''role'', JStr ''assistant''), (''content'', JStr ''Hel'')])],
         Chunk [(''message'', JObj [(''role'', JStr ''assistant''), (''content'', JStr ''lo'')])],
         Raise (BackendError ''connection lost'')]"
      "\<lparr>model_key = ''general'', messages = []\<rparr>"
      "BackendError ''connection lost''"
      "[[(''message'', JObj [(''role'', JStr ''assistant''), (''content'', JStr ''Hel'')])],
        [(''message'', JObj [(''role'', JStr ''assistant''), (''content'', JStr ''lo'')])]]"
      "[]" "[JStr ''Hel'', JStr ''lo'']"]
    chat_stream_backend_failure [of
      "\<lambda>model_name msgs. CallRaises (BackendError ''model not found'')"
      "\<lparr>model_key = ''code'', messages = []\<rparr>"
      "BackendError ''model not found''"]
  by (simp add: content_of_def)




text \<open>
  C4. A message list of more than 20 entries is forwarded as its last 20 entries, in
  their order (the converted list is some older entries followed by the forwarded list,
  which has length 20); a list of at most 20 entries is forwarded whole. The forwarded
  list is what the backend is called with, together with the resolved model name: a
  backend that raises an exception made from its two arguments has these very arguments
  relayed in the error fragment, and the response depends on the backend only through
  its behaviour on them.
\<close>

theorem chat_stream_context_window:
  "(length (ChatRequest.messages request) > 20 \<longrightarrow>
      length (context_messages request) = 20 \<and>
      (\<exists>older. map message_dict (ChatRequest.messages request) = older @ context_messages request)) \<and>
   (length (ChatRequest.messages request) \<le> 20 \<longrightarrow>
      context_messages request = map message_dict (ChatRequest.messages request)) \<and>
   (\<forall>reveal.
      chat_stream (\<lambda>model_name msgs. CallRaises (BackendError (reveal model_name msgs))) request
        = ([JStr (''Error: '' @
                  reveal (get_model_name (model_key request)) (context_messages request))], None)) \<and>
   (\<forall>other. other (get_model_name (model_key request)) (context_messages request)
             = ollama_chat (get_model_name (model_key request)) (context_messages request) \<longrightarrow>
      chat_stream other request = chat_stream ollama_chat request)"
proof (intro conjI impI allI)
  let ?all = "map message_dict (ChatRequest.messages request)"
  assume long: "length (ChatRequest.messages request) > 20"
  then show "length (context_messages request) = 20"
    by (simp add: context_messages_def Let_def)
  have "?all = take (length ?all - 20) ?all @ drop (length ?all - 20) ?all"
    by simp
  moreover from long have "context_messages request = drop (length ?all - 20) ?all"
    by (simp add: context_messages_def Let_def)
  ultimately show "\<exists>older. ?all = older @ context_messages request"
    by metis
next
  assume "length (ChatRequest.messages request) \<le> 20"
  then show "context_messages request = map message_dict (ChatRequest.messages request)"
    by (simp add: context_messages_def Let_def)
next
  fix reveal :: "string \<Rightarrow> (string \<times> string) list list \<Rightarrow> string"
  show "chat_stream (\<lambda>model_name msgs. CallRaises (BackendError (reveal model_name msgs))) request
        = ([JStr (''Error: '' @
                  reveal (get_model_name (model_key request)) (context_messages request))], None)"
    by (simp add: chat_stream_def generate_def try_block_def)
next
  fix other :: backend
  assume "other (get_model_name (model_key request)) (context_messages request)
             = ollama_chat (get_model_name (model_key request)) (context_messages request)"
  then show "chat_stream other request = chat_stream ollama_chat request"
    by (simp add: chat_stream_def generate_def)
qed

text \<open>
  A request of 21 messages, a request of one message whose content comes back in the
  error fragment of a revealing backend, and two backends that differ only away from
  what the relay forwards.
\<close>

theorem chat_stream_context_window_witness:
  "length (context_messages
      \<lparr>model_key = ''general'',
       messages = \<lparr>role = ''system'', content = ''oldest''\<rparr> # replicate 20 \<lparr>role = ''user'', content = ''hi''\<rparr>\<rparr>)
     = 20 \<and>
   context_messages \<lparr>model_key = ''code'', messages = [\<lparr>role = ''user'', content = ''hi''\<rparr>]\<rparr>
     = [[(''role'', ''user''), (''content'', ''hi'')]] \<and>
   chat_stream
      (\<lambda>model_name msgs. CallRaises (BackendError (model_name @ concat (map (concat \<circ> map snd) msgs))))
      \<lparr>model_key = ''code'', messages = [\<lparr>role = ''user'', content = ''hi''\<rparr>]\<rparr>
     = ([JStr ''Error: qwen2.5-coder:3buserhi''], None) \<and>
   chat_stream (\<lambda>model_name msgs. if length msgs = 1 then Returns [] else CallRaises (BackendError ''busy''))
      \<lparr>model_key = ''code'', messages = [\<lparr>role = ''user'', content = ''hi''\<rparr>]\<rparr>
     = chat_stream (\<lambda>model_name msgs. Returns [])
      \<lparr>model_key = ''code'', messages = [\<lparr>role = ''user'', content = ''hi''\<rparr>]\<rparr>"
proof (intro conjI)
  let ?long = "\<lparr>model_key = ''general'',
       messages = \<lparr>role = ''system'', content = ''oldest''\<rparr> # replicate 20 \<lparr>role = ''user'', content = ''hi''\<rparr>\<rparr>"
  let ?short = "\<lparr>model_key = ''code'', messages = [\<lparr>role = ''user'', content = ''hi''\<rparr>]\<rparr>"
  let ?other = "\<lambda>(model_name :: string) (msgs :: (string \<times> string) list list).
     if length msgs = 1 then Returns [] else CallRaises (BackendError ''busy'')"
  let ?reveal = "\<lambda>(model_name :: string) (msgs :: (string \<times> string) list list).
     model_name @ concat (map (concat \<circ> map snd) msgs)"
  have long: "length (ChatRequest.messages ?long) > 20"
    by simp
  from chat_stream_context_window [of ?long] long
  show "length (context_messages ?long) = 20"
    by blast
  have short: "length (ChatRequest.messages ?short) \<le> 20"
    by simp
  from chat_stream_context_window [of ?short] short
  have "context_messages ?short = map message_dict (ChatRequest.messages ?short)"
    by blast
  then show ctx: "context_messages ?short = [[(''role'', ''user''), (''content'', ''hi'')]]"
    by (simp add: message_dict_def)
  note w = chat_stream_context_window [of ?short "\<lambda>model_name msgs. Returns []"]
  from w [THEN conjunct2, THEN conjunct2, THEN conjunct1, THEN spec, of ?reveal]
  show "chat_stream (\<lambda>model_name msgs. CallRaises (BackendError (?reveal model_name msgs))) ?short
      = ([JStr ''Error: qwen2.5-coder:3buserhi''], None)"
    unfolding ctx by (simp add: get_model_name_def MODELS_def dict_get_def)
  have same: "?other (get_model_name (model_key ?short)) (context_messages ?short)
      = (\<lambda>model_name msgs. Returns []) (get_model_name (model_key ?short)) (context_messages ?short)"
    unfolding ctx by simp
  from w [THEN conjunct2, THEN conjunct2, THEN conjunct2, THEN spec, of ?other, THEN mp, OF same]
  show "chat_stream ?other ?short = chat_stream (\<lambda>model_name msgs. Returns []) ?short" .
qed


section \<open>The record store: listing\<close>

lemma summaries_Nil [simp]: "summaries [] = []"
  by (simp add: summaries_def)

lemma summaries_Cons:
  "summaries ((filepath, f) # files) =
     (case f of Inr (JObj data) \<Rightarrow> [summary_of filepath data] | _ \<Rightarrow> []) @ summaries files"
  by (simp add: summaries_def)

lemma summaries_mem:
  "x \<in> set (summaries files) \<longleftrightarrow>
     (\<exists>filepath data. (filepath, Inr (JObj data)) \<in> set files \<and> x = summary_of filepath data)"
proof (induction files)
  case Nil
  then show ?case by simp
next
  case (Cons p files)
  obtain filepath f where p: "p = (filepath, f)" by (cases p)
  show ?case
    unfolding p summaries_Cons using Cons.IH
    by (cases f; cases "projr f") auto
qed

text \<open>
  The loop of \<open>get_chats\<close>, when it ends without an exception, has collected the
  summaries of the object files in scan order; it does end so when every file either
  raises \<open>JSONDecodeError\<close> or holds an object.
\<close>

lemma scan_files_Inr:
  "scan_files files acc = Inr chats \<Longrightarrow> chats = acc @ summaries files"
proof (induction files acc rule: scan_files.induct)
  case (1 chats)
  then show ?case by simp
next
  case (2 filepath f rest acc)
  show ?case
  proof (cases "load_summary filepath f")
    case (Inl e)
    with 2 show ?thesis
      by (cases f; cases "projr f") (auto simp: summaries_Cons split: if_splits)
  next
    case (Inr x)
    with 2 show ?thesis
      by (cases f; cases "projr f") (auto simp: summaries_Cons)
  qed
qed




lemma get_chats_Inr:
  assumes "get_chats d = Inr chats"
  shows "sort_chats (listed d) = Inr chats"
proof (cases "scan_files (glob_json d) []")
  case (Inl e)
  with assms show ?thesis by (simp add: get_chats_def)
next
  case (Inr cs)
  then have "cs = listed d"
    using scan_files_Inr [of "glob_json d" "[]" cs] by (simp add: listed_def)
  with assms Inr show ?thesis by (simp add: get_chats_def)
qed

text \<open>The sort returns a permutation, and it returns when the keys can be compared.\<close>

lemma mset_insort_lt [simp]: "mset (insort_lt lt x ys) = add_mset x (mset ys)"
  by (induction ys) auto

lemma mset_sort_lt [simp]: "mset (sort_lt lt xs) = mset xs"
  by (induction xs) (auto simp: sort_lt_def)

lemma set_sort_lt [simp]: "set (sort_lt lt xs) = set xs"
  using mset_sort_lt [of lt xs] by (metis set_mset_mset)

lemma unsupported_None: "unsupported a b = None \<longleftrightarrow> comparable a b"
  by (auto simp: unsupported_def comparable_def split: sum.splits)

lemma first_unsupported_None: "first_unsupported ks = None \<longleftrightarrow> pairwise_comparable ks"
proof (induction ks)
  case Nil
  then show ?case by simp
next
  case (Cons k ks)
  have "List.map_filter (unsupported k) ks = [] \<longleftrightarrow> (\<forall>k' \<in> set ks. comparable k k')"
    by (induction ks)
      (auto simp: List.map_filter_simps unsupported_None [symmetric] split: option.splits)
  with Cons show ?case
    by (auto split: list.splits)
qed

lemma sort_chats_comparable:
  "pairwise_comparable (map timestamp_key chats) \<Longrightarrow>
     sort_chats chats =
       Inr (rev (sort_lt (\<lambda>x y. py_lt (timestamp_key x) (timestamp_key y) = Inr True) (rev chats)))"
  using first_unsupported_None [of "map timestamp_key chats"] by (simp add: sort_chats_def)

lemma sort_chats_incomparable:
  "\<not> pairwise_comparable (map timestamp_key chats) \<Longrightarrow> \<exists>e. sort_chats chats = Inl e"
  using first_unsupported_None [of "map timestamp_key chats"]
  by (auto simp: sort_chats_def split: option.splits)

lemma sort_chats_mset: "sort_chats cs = Inr chats \<Longrightarrow> mset chats = mset cs"
  by (auto simp: sort_chats_def split: option.splits)

text \<open>On string keys the sort is the library's stable sort by the strings.\<close>

lemma is_str_iff: "is_str v \<longleftrightarrow> (\<exists>s. v = JStr s)"
  by (cases v) auto

lemma pairwise_comparable_strings:
  "\<forall>k \<in> set ks. is_str k \<Longrightarrow> pairwise_comparable ks"
  by (induction ks) (auto simp: comparable_def is_str_iff)

lemma insort_lt_strings:
  assumes "\<forall>y \<in> set (x # ys). is_str (key y)"
  shows "insort_lt (\<lambda>x y. py_lt (key x) (key y) = Inr True) x ys
           = insort_key (\<lambda>x. str_of (key x)) x ys"
  using assms by (induction ys) (auto simp: is_str_iff)

lemma sort_lt_strings:
  assumes "\<forall>y \<in> set xs. is_str (key y)"
  shows "sort_lt (\<lambda>x y. py_lt (key x) (key y) = Inr True) xs = sort_key (\<lambda>x. str_of (key x)) xs"
  using assms
proof (induction xs)
  case Nil
  then show ?case by (simp add: sort_lt_def)
next
  case (Cons x xs)
  then have "sort_lt (\<lambda>x y. py_lt (key x) (key y) = Inr True) xs
      = sort_key (\<lambda>x. str_of (key x)) xs"
    by simp
  moreover have "\<forall>y \<in> set (x # sort_key (\<lambda>x. str_of (key x)) xs). is_str (key y)"
    using Cons.prems by simp
  ultimately show ?case
    using insort_lt_strings [of x "sort_key (\<lambda>x. str_of (key x)) xs" key]
    by (simp add: sort_lt_def)
qed

lemma sort_chats_strings:
  assumes "\<forall>x \<in> set chats. is_str (timestamp_key x)"
  shows "sort_chats chats = Inr (rev (sort_key (\<lambda>x. str_of (timestamp_key x)) (rev chats)))"
proof -
  from assms have "pairwise_comparable (map timestamp_key chats)"
    by (intro pairwise_comparable_strings) simp
  moreover from assms have "\<forall>y \<in> set (rev chats). is_str (timestamp_key y)"
    by simp
  ultimately show ?thesis
    by (simp add: sort_chats_comparable sort_lt_strings)
qed

lemma timestamp_key_summary_of [simp]:
  "timestamp_key (summary_of filepath data) = dict_get data ''timestamp'' (JStr [])"
  by (simp add: timestamp_key_def summary_of_def dict_get_def)

lemma listed_strings:
  assumes "\<forall>filepath data v. (filepath, Inr (JObj data)) \<in> set (glob_json d) \<and>
             map_of data ''timestamp'' = Some v \<longrightarrow> is_str v"
  shows "\<forall>x \<in> set (listed d). is_str (timestamp_key x)"
proof
  fix x assume "x \<in> set (listed d)"
  then obtain filepath data where
    m: "(filepath, Inr (JObj data)) \<in> set (glob_json d)" and x: "x = summary_of filepath data"
    by (auto simp: listed_def summaries_mem)
  show "is_str (timestamp_key x)"
  proof (cases "map_of data ''timestamp''")
    case None
    then show ?thesis by (simp add: x dict_get_def)
  next
    case (Some v)
    with assms m have "is_str v" by blast
    with Some show ?thesis by (simp add: x dict_get_def)
  qed
qed

lemma sorted_desc_rev_sort_key:
  "sorted_wrt (\<lambda>x y. k y \<le> k x) (rev (sort_key k xs))"
proof -
  have "sorted (map k (sort_key k xs))" by simp
  then have "sorted_wrt (\<lambda>x y. k x \<le> k y) (sort_key k xs)"
    by (simp add: sorted_map)
  then show ?thesis
    by (simp add: sorted_wrt_rev)
qed

lemma map_sort_key: "map k (sort_key k xs) = sort (map k xs)"
  by (rule properties_for_sort [symmetric]) simp_all

lemma sort_rev: "sort (rev xs) = sort xs"
  by (rule properties_for_sort) simp_all

lemma sorted3:
  fixes t1 :: "'a :: linorder"
  assumes "mset xs = {#t1, t2, t3#}" "t1 < t2" "t2 < t3"
  shows "sort xs = [t1, t2, t3]"
proof (rule properties_for_sort)
  show "mset [t1, t2, t3] = mset xs" using assms(1) by simp
  show "sorted [t1, t2, t3]" using assms(2,3) by auto
qed

text \<open>
  The stem of a name \<open>s.json\<close> with a non-empty \<open>s\<close> is \<open>s\<close>, so the path built
  from that stem is the file's own name.
\<close>

lemma endswith_append: "endswith name suffix \<Longrightarrow> \<exists>s. name = s @ suffix"
  unfolding endswith_def by (metis append_take_drop_id)

lemma rfind_dot_json: "rfind_dot (s @ ''.json'') = Some (length s)"
  by (simp add: rfind_dot_def)

lemma stem_json: "s \<noteq> [] \<Longrightarrow> stem (s @ ''.json'') = s"
  by (simp add: stem_def rfind_dot_json)

lemma stem_path:
  assumes "endswith filepath ''.json''" "filepath \<noteq> ''.json''"
  shows "chat_path (stem filepath) = filepath"
proof -
  from assms(1) obtain s where s: "filepath = s @ ''.json''"
    using endswith_append by blast
  with assms(2) have "s \<noteq> []" by auto
  then show ?thesis by (simp add: s stem_json chat_path_def)
qed

text \<open>
  C6, as amended. Whenever \<open>get_chats\<close> returns and the timestamps stored in the listed
  record files are strings, the returned summaries all have a string timestamp (the empty
  string for a record without the field) and are sorted by it in descending
  lexicographic order: no summary is followed by one with a greater timestamp, a summary
  with the empty timestamp is followed by such summaries only, and the sequence of
  returned timestamps is the reverse of the sorted sequence of the timestamps of the
  listed files. In particular, for three records with timestamps \<open>T1 < T2 < T3\<close>, scanned
  in any order, the returned order is \<open>T3, T2, T1\<close>.
\<close>

theorem get_chats_sorted_desc:
  assumes "get_chats d = Inr chats"
    and "\<forall>filepath data v. (filepath, Inr (JObj data)) \<in> set (glob_json d) \<and>
           map_of data ''timestamp'' = Some v \<longrightarrow> is_str v"
  shows "(\<forall>x \<in> set chats. is_str (timestamp_key x)) \<and>
     sorted_wrt (\<lambda>x y. str_of (timestamp_key y) \<le> str_of (timestamp_key x)) chats \<and>
     (\<forall>i j. i < j \<and> j < length chats \<and> timestamp_key (chats ! i) = JStr [] \<longrightarrow>
        timestamp_key (chats ! j) = JStr []) \<and>
     map (\<lambda>x. str_of (timestamp_key x)) chats
       = rev (sort (map (\<lambda>x. str_of (timestamp_key x)) (listed d))) \<and>
     (\<forall>t1 t2 t3. mset (map (\<lambda>x. str_of (timestamp_key x)) (listed d)) = {#t1, t2, t3#} \<and>
        t1 < t2 \<and> t2 < t3 \<longrightarrow> map (\<lambda>x. str_of (timestamp_key x)) chats = [t3, t2, t1])"
proof -
  let ?k = "\<lambda>x. str_of (timestamp_key x)"
  have strs: "\<forall>x \<in> set (listed d). is_str (timestamp_key x)"
    using assms(2) by (rule listed_strings)
  have "sort_chats (listed d) = Inr chats"
    using assms(1) by (rule get_chats_Inr)
  with strs have chats: "chats = rev (sort_key ?k (rev (listed d)))"
    by (simp add: sort_chats_strings)
  have a: "\<forall>x \<in> set chats. is_str (timestamp_key x)"
    using strs by (simp add: chats)
  have b: "sorted_wrt (\<lambda>x y. ?k y \<le> ?k x) chats"
    unfolding chats by (rule sorted_desc_rev_sort_key)
  have c: "timestamp_key (chats ! j) = JStr []"
    if "i < j" "j < length chats" "timestamp_key (chats ! i) = JStr []" for i j
  proof -
    from b that(1,2) have "?k (chats ! j) \<le> ?k (chats ! i)"
      by (simp add: sorted_wrt_iff_nth_less)
    with that(3) have "?k (chats ! j) = []" by simp
    moreover from a that(2) have "is_str (timestamp_key (chats ! j))" by simp
    ultimately show ?thesis by (cases "timestamp_key (chats ! j)") simp_all
  qed
  have e: "map ?k chats = rev (sort (map ?k (listed d)))"
    by (simp add: chats rev_map [symmetric] map_sort_key sort_rev)
  have f: "map ?k chats = [t3, t2, t1]"
    if "mset (map ?k (listed d)) = {#t1, t2, t3#}" "t1 < t2" "t2 < t3" for t1 t2 t3
    using sorted3 [OF that] by (simp add: e)
  from a b c e f show ?thesis by blast
qed

text \<open>
  Three records scanned out of order, a file that is not JSON, a file that is not a
  record file, and a record without timestamp, which comes last.
\<close>

theorem get_chats_sorted_desc_witness:
  "get_chats
     [(''b.json'', Inr (JObj [(''id'', JStr ''b''), (''timestamp'', JStr ''2024-02-01T10:00:00'')])),
      (''notes.txt'', Inr (JInt 7)),
      (''c.json'', Inr (JObj [(''id'', JStr ''c''), (''timestamp'', JStr ''2024-03-01T10:00:00'')])),
      (''broken.json'', Inl (JSONDecodeError ''Expecting value'')),
      (''a.json'', Inr (JObj [(''id'', JStr ''a''), (''timestamp'', JStr ''2024-01-01T10:00:00'')])),
      (''old.json'', Inr (JObj [(''title'', JStr ''Old chat'')]))]
   = Inr
     [[(''id'', JStr ''c''), (''title'', JStr ''Untitled''),
       (''timestamp'', JStr ''2024-03-01T10:00:00''), (''model'', JStr ''general'')],
      [(''id'', JStr ''b''), (''title'', JStr ''Untitled''),
       (''timestamp'', JStr ''2024-02-01T10:00:00''), (''model'', JStr ''general'')],
      [(''id'', JStr ''a''), (''title'', JStr ''Untitled''),
       (''timestamp'', JStr ''2024-01-01T10:00:00''), (''model'', JStr ''general'')],
      [(''id'', JStr ''old''), (''title'', JStr ''Old chat''),
       (''timestamp'', JStr []), (''model'', JStr ''general'')]] \<and>
   sorted_wrt (\<lambda>x y. str_of (timestamp_key y) \<le> str_of (timestamp_key x))
     [[(''id'', JStr ''c''), (''title'', JStr ''Untitled''),
       (''timestamp'', JStr ''2024-03-01T10:00:00''), (''model'', JStr ''general'')],
      [(''id'', JStr ''b''), (''title'', JStr ''Untitled''),
       (''timestamp'', JStr ''2024-02-01T10:00:00''), (''model'', JStr ''general'')],
      [(''id'', JStr ''a''), (''title'', JStr ''Untitled''),
       (''timestamp'', JStr ''2024-01-01T10:00:00''), (''model'', JStr ''general'')],
      [(''id'', JStr ''old''), (''title'', JStr ''Old chat''),
       (''timestamp'', JStr []), (''model'', JStr ''general'')]]"
proof -
  let ?d = "[(''b.json'', Inr (JObj [(''id'', JStr ''b''), (''timestamp'', JStr ''2024-02-01T10:00:00'')])),
      (''notes.txt'', Inr (JInt 7)),
      (''c.json'', Inr (JObj [(''id'', JStr ''c''), (''timestamp'', JStr ''2024-03-01T10:00:00'')])),
      (''broken.json'', Inl (JSONDecodeError ''Expecting value'')),
      (''a.json'', Inr (JObj [(''id'', JStr ''a''), (''timestamp'', JStr ''2024-01-01T10:00:00'')])),
      (''old.json'', Inr (JObj [(''title'', JStr ''Old chat'')]))] :: store"
  let ?chats = "[[(''id'', JStr ''c''), (''title'', JStr ''Untitled''),
       (''timestamp'', JStr ''2024-03-01T10:00:00''), (''model'', JStr ''general'')],
      [(''id'', JStr ''b''), (''title'', JStr ''Untitled''),
       (''timestamp'', JStr ''2024-02-01T10:00:00''), (''model'', JStr ''general'')],
      [(''id'', JStr ''a''), (''title'', JStr ''Untitled''),
       (''timestamp'', JStr ''2024-01-01T10:00:00''), (''model'', JStr ''general'')],
      [(''id'', JStr ''old''), (''title'', JStr ''Old chat''),
       (''timestamp'', JStr []), (''model'', JStr ''general'')]] :: summary list"
  have g: "glob_json ?d =
     [(''b.json'', Inr (JObj [(''id'', JStr ''b''), (''timestamp'', JStr ''2024-02-01T10:00:00'')])),
      (''c.json'', Inr (JObj [(''id'', JStr ''c''), (''timestamp'', JStr ''2024-03-01T10:00:00'')])),
      (''broken.json'', Inl (JSONDecodeError ''Expecting value'')),
      (''a.json'', Inr (JObj [(''id'', JStr ''a''), (''timestamp'', JStr ''2024-01-01T10:00:00'')])),
      (''old.json'', Inr (JObj [(''title'', JStr ''Old chat'')]))]"
    by (simp add: glob_json_def endswith_def)
  have run: "get_chats ?d = Inr ?chats"
    by (simp add: get_chats_def g summary_of_def dict_get_def sort_chats_def sort_lt_def
        timestamp_key_def stem_def rfind_dot_def unsupported_def List.map_filter_simps)
  have strs: "\<forall>filepath data v. (filepath, Inr (JObj data)) \<in> set (glob_json ?d) \<and>
           map_of data ''timestamp'' = Some v \<longrightarrow> is_str v"
    unfolding g by auto
  from get_chats_sorted_desc [OF run strs] run show ?thesis
    by blast
qed

text \<open>
  Two records whose timestamps are the numbers 5 and 10 are returned with 10 before 5,
  the order of the numbers, while the string \<open>10\<close> comes before the string \<open>5\<close>; and
  with a number and a string as timestamps the sort raises \<open>TypeError\<close>, so that no list
  is returned.
\<close>

theorem get_chats_sorted_desc_counterexample:
  "get_chats
     [(''a.json'', Inr (JObj [(''id'', JStr ''a''), (''timestamp'', JInt 5)])),
      (''b.json'', Inr (JObj [(''id'', JStr ''b''), (''timestamp'', JInt 10)]))]
   = Inr
     [[(''id'', JStr ''b''), (''title'', JStr ''Untitled''), (''timestamp'', JInt 10),
       (''model'', JStr ''general'')],
      [(''id'', JStr ''a''), (''title'', JStr ''Untitled''), (''timestamp'', JInt 5),
       (''model'', JStr ''general'')]] \<and>
   ''10'' < ''5'' \<and>
   get_chats
     [(''a.json'', Inr (JObj [(''id'', JStr ''a''), (''timestamp'', JInt 5)])),
      (''b.json'', Inr (JObj [(''id'', JStr ''b''), (''timestamp'', JStr ''2024-01-01T10:00:00'')]))]
   = Inl (TypeError (quoted ''<'' @ '' not supported between instances of ''
                     @ quoted ''int'' @ '' and '' @ quoted ''str''))"
  by (simp add: get_chats_def glob_json_def endswith_def summary_of_def dict_get_def
      sort_chats_def sort_lt_def timestamp_key_def stem_def rfind_dot_def unsupported_def
      List.map_filter_simps not_supported_def)




text \<open>
  C9, as amended. Every summary that \<open>get_chats\<close> returns comes from a record file
  holding a JSON object and consists of exactly the four fields \<open>id\<close>, \<open>title\<close>,
  \<open>timestamp\<close> and \<open>model\<close>, each with the value stored in the file or, when the file
  lacks the field, with the default: the stem of the file's name, \<open>"Untitled"\<close>, the
  empty string, \<open>"general"\<close>. The reported id is the stem of the file's name, and names
  a file that exists in the directory, when the file stores no id or stores its own stem
  as id, and its name is not the bare \<open>.json\<close>.
\<close>

theorem get_chats_summary_fields:
  assumes "get_chats d = Inr chats" and "x \<in> set chats"
  shows "\<exists>filepath data.
     (filepath, Inr (JObj data)) \<in> set d \<and> CHR ''/'' \<notin> set filepath \<and> endswith filepath ''.json'' \<and>
     x = [(''id'', case map_of data ''id'' of None \<Rightarrow> JStr (stem filepath) | Some v \<Rightarrow> v),
          (''title'', case map_of data ''title'' of None \<Rightarrow> JStr ''Untitled'' | Some v \<Rightarrow> v),
          (''timestamp'', case map_of data ''timestamp'' of None \<Rightarrow> JStr [] | Some v \<Rightarrow> v),
          (''model'', case map_of data ''model'' of None \<Rightarrow> JStr ''general'' | Some v \<Rightarrow> v)] \<and>
     ((map_of data ''id'' = None \<or> map_of data ''id'' = Some (JStr (stem filepath))) \<and>
      filepath \<noteq> ''.json'' \<longrightarrow>
        map_of x ''id'' = Some (JStr (stem filepath)) \<and>
        chat_path (stem filepath) \<in> fst ` set d \<and>
        (\<forall>e. stat_error e (chat_path (stem filepath)) = None \<longrightarrow>
           exists e d (chat_path (stem filepath)) = Inr True))"
proof -
  have "sort_chats (listed d) = Inr chats"
    using assms(1) by (rule get_chats_Inr)
  then have "mset chats = mset (listed d)"
    by (rule sort_chats_mset)
  then have "set chats = set (listed d)"
    by (rule mset_eq_setD)
  with assms(2) have "x \<in> set (summaries (glob_json d))"
    by (auto simp: listed_def)
  then obtain filepath data where
    m: "(filepath, Inr (JObj data)) \<in> set (glob_json d)" and x: "x = summary_of filepath data"
    unfolding summaries_mem by blast
  from m have d: "(filepath, Inr (JObj data)) \<in> set d"
    and slash: "CHR ''/'' \<notin> set filepath" and suffix: "endswith filepath ''.json''"
    by (auto simp: glob_json_def)
  have fields: "x = [(''id'', case map_of data ''id'' of None \<Rightarrow> JStr (stem filepath) | Some v \<Rightarrow> v),
          (''title'', case map_of data ''title'' of None \<Rightarrow> JStr ''Untitled'' | Some v \<Rightarrow> v),
          (''timestamp'', case map_of data ''timestamp'' of None \<Rightarrow> JStr [] | Some v \<Rightarrow> v),
          (''model'', case map_of data ''model'' of None \<Rightarrow> JStr ''general'' | Some v \<Rightarrow> v)]"
    by (simp add: x summary_of_def dict_get_def)
  have named: "map_of x ''id'' = Some (JStr (stem filepath)) \<and>
        chat_path (stem filepath) \<in> fst ` set d \<and>
        (\<forall>e. stat_error e (chat_path (stem filepath)) = None \<longrightarrow>
           exists e d (chat_path (stem filepath)) = Inr True)"
    if "map_of data ''id'' = None \<or> map_of data ''id'' = Some (JStr (stem filepath))"
      and "filepath \<noteq> ''.json''"
  proof (intro conjI)
    from that(1) show "map_of x ''id'' = Some (JStr (stem filepath))"
      by (auto simp: fields)
    from suffix that(2) have "chat_path (stem filepath) = filepath"
      by (rule stem_path)
    moreover from d have "filepath \<in> fst ` set d"
      by force
    ultimately show p: "chat_path (stem filepath) \<in> fst ` set d"
      by simp
    then show "\<forall>e. stat_error e (chat_path (stem filepath)) = None \<longrightarrow>
           exists e d (chat_path (stem filepath)) = Inr True"
      by (simp add: exists_def contains_def)
  qed
  from d slash suffix fields named show ?thesis by blast
qed

text \<open>
  Two records with numeric timestamps, the first one without \<open>id\<close>, \<open>title\<close> and
  \<open>model\<close>.
\<close>

theorem get_chats_summary_fields_witness:
  "get_chats
     [(''x.json'', Inr (JObj [(''timestamp'', JInt 5)])),
      (''y.json'', Inr (JObj [(''id'', JStr ''y''), (''timestamp'', JInt 7), (''model'', JStr ''code'')]))]
   = Inr
     [[(''id'', JStr ''y''), (''title'', JStr ''Untitled''), (''timestamp'', JInt 7), (''model'', JStr ''code'')],
      [(''id'', JStr ''x''), (''title'', JStr ''Untitled''), (''timestamp'', JInt 5), (''model'', JStr ''general'')]] \<and>
   (\<exists>filepath data.
     (filepath, Inr (JObj data)) \<in> set
       ([(''x.json'', Inr (JObj [(''timestamp'', JInt 5)])),
         (''y.json'', Inr (JObj [(''id'', JStr ''y''), (''timestamp'', JInt 7), (''model'', JStr ''code'')]))]
        :: store) \<and>
     [(''id'', JStr ''x''), (''title'', JStr ''Untitled''), (''timestamp'', JInt 5), (''model'', JStr ''general'')]
       = [(''id'', case map_of data ''id'' of None \<Rightarrow> JStr (stem filepath) | Some v \<Rightarrow> v),
          (''title'', case map_of data ''title'' of None \<Rightarrow> JStr ''Untitled'' | Some v \<Rightarrow> v),
          (''timestamp'', case map_of data ''timestamp'' of None \<Rightarrow> JStr [] | Some v \<Rightarrow> v),
          (''model'', case map_of data ''model'' of None \<Rightarrow> JStr ''general'' | Some v \<Rightarrow> v)])"
proof -
  let ?d = "[(''x.json'', Inr (JObj [(''timestamp'', JInt 5)])),
      (''y.json'', Inr (JObj [(''id'', JStr ''y''), (''timestamp'', JInt 7), (''model'', JStr ''code'')]))] :: store"
  let ?x = "[(''id'', JStr ''x''), (''title'', JStr ''Untitled''), (''timestamp'', JInt 5), (''model'', JStr ''general'')] :: summary"
  let ?y = "[(''id'', JStr ''y''), (''title'', JStr ''Untitled''), (''timestamp'', JInt 7), (''model'', JStr ''code'')] :: summary"
  have run: "get_chats ?d = Inr [?y, ?x]"
    by (simp add: get_chats_def glob_json_def endswith_def summary_of_def dict_get_def
      sort_chats_def sort_lt_def timestamp_key_def stem_def rfind_dot_def unsupported_def
      List.map_filter_simps)
  have mem: "?x \<in> set [?y, ?x]"
    by simp
  from get_chats_summary_fields [OF run mem]
  have "\<exists>filepath data.
     (filepath, Inr (JObj data)) \<in> set ?d \<and>
     ?x = [(''id'', case map_of data ''id'' of None \<Rightarrow> JStr (stem filepath) | Some v \<Rightarrow> v),
          (''title'', case map_of data ''title'' of None \<Rightarrow> JStr ''Untitled'' | Some v \<Rightarrow> v),
          (''timestamp'', case map_of data ''timestamp'' of None \<Rightarrow> JStr [] | Some v \<Rightarrow> v),
          (''model'', case map_of data ''model'' of None \<Rightarrow> JStr ''general'' | Some v \<Rightarrow> v)]"
    by blast
  with run show ?thesis
    by blast
qed

text \<open>
  A record file \<open>a.json\<close> that stores the id \<open>b\<close> is reported under the id \<open>b\<close>,
  and there is no file \<open>b.json\<close>.
\<close>

theorem get_chats_summary_fields_counterexample:
  "get_chats [(''a.json'', Inr (JObj [(''id'', JStr ''b'')]))]
     = Inr [[(''id'', JStr ''b''), (''title'', JStr ''Untitled''),
             (''timestamp'', JStr []), (''model'', JStr ''general'')]] \<and>
   exists example_env [(''a.json'', Inr (JObj [(''id'', JStr ''b'')]))] (chat_path ''b'')
     = Inr False"
  by (simp add: get_chats_def glob_json_def endswith_def summary_of_def dict_get_def
      sort_chats_def sort_lt_def timestamp_key_def stem_def rfind_dot_def exists_def
      contains_def chat_path_def example_env_def)


section \<open>The record store: loading and saving\<close>

lemma exists_stat_ok:
  "stat_error e filepath = None \<Longrightarrow> exists e d filepath = Inr (map_of d filepath \<noteq> None)"
  by (simp add: exists_def contains_map_of)

lemma exists_stat_error:
  "stat_error e filepath = Some msg \<Longrightarrow> exists e d filepath = Inl (OSError msg)"
  by (simp add: exists_def)

lemma get_chat_404:
  assumes "get_chat e d chat_id = Inl (HTTPException 404 detail)"
  shows "stat_error e (chat_id @ ''.json'') = None \<and> chat_id @ ''.json'' \<notin> fst ` set d"
proof (cases "stat_error e (chat_id @ ''.json'')")
  case (Some msg)
  with assms show ?thesis
    by (simp add: get_chat_def chat_path_def exists_stat_error)
next
  case None
  show ?thesis
  proof (cases "map_of d (chat_id @ ''.json'')")
    case n: None
    with None show ?thesis
      by (simp add: map_of_eq_None_iff)
  next
    case (Some f)
    with None assms show ?thesis
      by (cases f) (simp_all add: get_chat_def chat_path_def exists_stat_ok load_def)
  qed
qed

text \<open>
  C7, as amended. \<open>get_chat\<close> raises the \<open>HTTPException\<close> with status 404 only when the
  storage directory has no file \<open>chat_id.json\<close>, and it does so whenever there is no
  such file and the existence test itself succeeds. When the file exists and the test
  succeeds, the decoded value is returned if the file decodes, and when reading it
  raises, e.g. \<open>JSONDecodeError\<close>, the result is the \<open>HTTPException\<close> with status 500 and
  the message of that exception; never 404. When the operating system does not accept
  the path in the existence test, the \<open>OSError\<close> of the test leaves \<open>get_chat\<close>
  unhandled, whether or not the file exists.
\<close>

theorem get_chat_not_found_iff:
  "((\<exists>detail. get_chat e d chat_id = Inl (HTTPException 404 detail)) \<longrightarrow>
      chat_id @ ''.json'' \<notin> fst ` set d) \<and>
   (stat_error e (chat_id @ ''.json'') = None \<and> chat_id @ ''.json'' \<notin> fst ` set d \<longrightarrow>
      get_chat e d chat_id = Inl (HTTPException 404 ''Chat not found'')) \<and>
   (\<forall>data. stat_error e (chat_id @ ''.json'') = None \<and>
           map_of d (chat_id @ ''.json'') = Some (Inr data) \<longrightarrow>
      get_chat e d chat_id = Inr data) \<and>
   (\<forall>err. stat_error e (chat_id @ ''.json'') = None \<and>
          map_of d (chat_id @ ''.json'') = Some (Inl err) \<longrightarrow>
      get_chat e d chat_id = Inl (HTTPException 500 (str err))) \<and>
   (\<forall>msg. stat_error e (chat_id @ ''.json'') = Some msg \<longrightarrow>
      get_chat e d chat_id = Inl (OSError msg))"
proof (intro conjI allI impI)
  assume "\<exists>detail. get_chat e d chat_id = Inl (HTTPException 404 detail)"
  then show "chat_id @ ''.json'' \<notin> fst ` set d"
    using get_chat_404 by blast
next
  assume "stat_error e (chat_id @ ''.json'') = None \<and> chat_id @ ''.json'' \<notin> fst ` set d"
  then show "get_chat e d chat_id = Inl (HTTPException 404 ''Chat not found'')"
    by (simp add: get_chat_def chat_path_def exists_stat_ok map_of_eq_None_iff)
next
  fix data
  assume "stat_error e (chat_id @ ''.json'') = None \<and>
           map_of d (chat_id @ ''.json'') = Some (Inr data)"
  then show "get_chat e d chat_id = Inr data"
    by (simp add: get_chat_def chat_path_def exists_stat_ok load_def)
next
  fix err
  assume "stat_error e (chat_id @ ''.json'') = None \<and>
          map_of d (chat_id @ ''.json'') = Some (Inl err)"
  then show "get_chat e d chat_id = Inl (HTTPException 500 (str err))"
    by (simp add: get_chat_def chat_path_def exists_stat_ok load_def)
next
  fix msg
  assume "stat_error e (chat_id @ ''.json'') = Some msg"
  then show "get_chat e d chat_id = Inl (OSError msg)"
    by (simp add: get_chat_def chat_path_def exists_stat_error)
qed

text \<open>
  A directory with a record that decodes and one that does not, asked for both and
  for a third id.
\<close>

theorem get_chat_not_found_iff_witness:
  "get_chat example_env
     [(''a.json'', Inr (JObj [(''id'', JStr ''a'')])),
      (''b.json'', Inl (JSONDecodeError ''Expecting value: line 1 column 1 (char 0)''))] ''a''
     = Inr (JObj [(''id'', JStr ''a'')]) \<and>
   get_chat example_env
     [(''a.json'', Inr (JObj [(''id'', JStr ''a'')])),
      (''b.json'', Inl (JSONDecodeError ''Expecting value: line 1 column 1 (char 0)''))] ''b''
     = Inl (HTTPException 500 ''Expecting value: line 1 column 1 (char 0)'') \<and>
   get_chat example_env
     [(''a.json'', Inr (JObj [(''id'', JStr ''a'')])),
      (''b.json'', Inl (JSONDecodeError ''Expecting value: line 1 column 1 (char 0)''))] ''c''
     = Inl (HTTPException 404 ''Chat not found'')"
proof -
  let ?d = "[(''a.json'', Inr (JObj [(''id'', JStr ''a'')])),
             (''b.json'', Inl (JSONDecodeError ''Expecting value: line 1 column 1 (char 0)''))] :: store"
  have a: "stat_error example_env (''a'' @ ''.json'') = None \<and>
      map_of ?d (''a'' @ ''.json'') = Some (Inr (JObj [(''id'', JStr ''a'')]))"
    by (simp add: example_env_def)
  have b: "stat_error example_env (''b'' @ ''.json'') = None \<and>
      map_of ?d (''b'' @ ''.json'')
      = Some (Inl (JSONDecodeError ''Expecting value: line 1 column 1 (char 0)''))"
    by (simp add: example_env_def)
  have c: "stat_error example_env (''c'' @ ''.json'') = None \<and> ''c'' @ ''.json'' \<notin> fst ` set ?d"
    by (simp add: example_env_def)
  from get_chat_not_found_iff [of example_env ?d "''a''"] a
  have "get_chat example_env ?d ''a'' = Inr (JObj [(''id'', JStr ''a'')])"
    by blast
  moreover from get_chat_not_found_iff [of example_env ?d "''b''"] b
  have "get_chat example_env ?d ''b''
      = Inl (HTTPException 500 (str (JSONDecodeError ''Expecting value: line 1 column 1 (char 0)'')))"
    by blast
  moreover from get_chat_not_found_iff [of example_env ?d "''c''"] c
  have "get_chat example_env ?d ''c'' = Inl (HTTPException 404 ''Chat not found'')"
    by blast
  ultimately show ?thesis
    by simp
qed

text \<open>
  An id of 300 characters, in an empty directory: no file of that name exists, and the
  result is not the 404 but the \<open>OSError\<close> of the existence test (Python 3.11, names of
  up to 255 characters).
\<close>

theorem get_chat_not_found_iff_counterexample:
  "get_chat example_env [] (replicate 300 CHR ''a'')
     = Inl (OSError ''[Errno 36] File name too long'') \<and>
   replicate 300 CHR ''a'' @ ''.json'' \<notin> fst ` set ([] :: store)"
  by (simp add: get_chat_def chat_path_def exists_def example_env_def)

lemma map_of_write_file: "map_of (write_file d filepath f) filepath = Some f"
  by (induction d filepath f rule: write_file.induct) auto

lemma inj_message_json: "inj message_json"
proof (rule injI)
  fix m m' :: Message
  assume "message_json m = message_json m'"
  then show "m = m'"
    by (cases m; cases m') (simp add: message_json_def)
qed

lemma save_chat_Inr:
  assumes "save_chat e d chat = Inr (response, d')"
  shows "response = [(''id'', JStr (new_chat_id e chat)), (''title'', opt_json (derive_title chat))]"
    and "d' = write_file d (chat_path (new_chat_id e chat)) (Inr (JObj (chat_data e chat)))"
    and "stat_error e (chat_path (new_chat_id e chat)) = None"
  using assms
  by (auto simp: save_chat_def open_w_def Let_def split: option.splits if_splits)

text \<open>
  C2, as amended. When \<open>save_chat\<close> returns, \<open>get_chat\<close> with the returned id, on
  the directory as \<open>save_chat\<close> left it, returns the record with that id, the returned
  title, the model of the request, the time stamp of the save, and the messages of the
  request as objects of \<open>role\<close> and \<open>content\<close> in the caller's order (the stored array
  determines the message sequence). The id is the one of the request unless that was
  omitted or empty, and the title is the one of the request unless that was omitted or
  empty.
\<close>

theorem save_then_get:
  assumes "save_chat e d chat = Inr (response, d')"
  shows "\<exists>chat_id t.
     response = [(''id'', JStr chat_id), (''title'', opt_json t)] \<and>
     get_chat e d' chat_id =
       Inr (JObj [(''id'', JStr chat_id),
                  (''title'', opt_json t),
                  (''model'', JStr (model chat)),
                  (''timestamp'', JStr (now e)),
                  (''messages'', JArr (map message_json (messages chat)))]) \<and>
     (\<forall>s. id' chat = Some s \<and> s \<noteq> [] \<longrightarrow> chat_id = s) \<and>
     (\<forall>s. title chat = Some s \<and> s \<noteq> [] \<longrightarrow> t = Some s) \<and>
     (\<forall>msgs. map message_json msgs = map message_json (messages chat) \<longrightarrow> msgs = messages chat)"
proof -
  let ?id = "new_chat_id e chat" and ?t = "derive_title chat"
  note s = save_chat_Inr [OF assms]
  have "get_chat e d' ?id = Inr (JObj (chat_data e chat))"
    using s(3) by (simp add: s(2) get_chat_def exists_stat_ok load_def map_of_write_file)
  then have g: "get_chat e d' ?id =
       Inr (JObj [(''id'', JStr ?id), (''title'', opt_json ?t), (''model'', JStr (model chat)),
                  (''timestamp'', JStr (now e)),
                  (''messages'', JArr (map message_json (messages chat)))])"
    by (simp add: chat_data_def)
  have i: "\<forall>s. id' chat = Some s \<and> s \<noteq> [] \<longrightarrow> ?id = s"
    by (simp add: new_chat_id_def)
  have t: "\<forall>s. title chat = Some s \<and> s \<noteq> [] \<longrightarrow> ?t = Some s"
    by (simp add: derive_title_def)
  have m: "\<forall>msgs. map message_json msgs = map message_json (messages chat) \<longrightarrow> msgs = messages chat"
    by (simp add: inj_map_eq_map [OF inj_message_json])
  from s(1) g i t m show ?thesis by blast
qed

text \<open>A save over an existing record, with id and title given.\<close>

theorem save_then_get_witness:
  "save_chat example_env
     [(''c1.json'', Inr (JObj [(''id'', JStr ''c1''), (''title'', JStr ''Old'')]))]
     \<lparr>id' = Some ''c1'', title = Some ''Greeting'', model = ''code'',
      messages = [\<lparr>role = ''user'', content = ''hi''\<rparr>, \<lparr>role = ''assistant'', content = ''hello''\<rparr>]\<rparr>
   = Inr ([(''id'', JStr ''c1''), (''title'', JStr ''Greeting'')],
          [(''c1.json'', Inr (JObj
             [(''id'', JStr ''c1''), (''title'', JStr ''Greeting''), (''model'', JStr ''code''),
              (''timestamp'', JStr ''2024-05-01T12:00:00.000000''),
              (''messages'', JArr [JObj [(''role'', JStr ''user''), (''content'', JStr ''hi'')],
                                   JObj [(''role'', JStr ''assistant''), (''content'', JStr ''hello'')]])]))]) \<and>
   get_chat example_env
     [(''c1.json'', Inr (JObj
        [(''id'', JStr ''c1''), (''title'', JStr ''Greeting''), (''model'', JStr ''code''),
         (''timestamp'', JStr ''2024-05-01T12:00:00.000000''),
         (''messages'', JArr [JObj [(''role'', JStr ''user''), (''content'', JStr ''hi'')],
                              JObj [(''role'', JStr ''assistant''), (''content'', JStr ''hello'')]])]))]
     ''c1''
   = Inr (JObj
        [(''id'', JStr ''c1''), (''title'', JStr ''Greeting''), (''model'', JStr ''code''),
         (''timestamp'', JStr ''2024-05-01T12:00:00.000000''),
         (''messages'', JArr [JObj [(''role'', JStr ''user''), (''content'', JStr ''hi'')],
                              JObj [(''role'', JStr ''assistant''), (''content'', JStr ''hello'')]])])"
proof -
  let ?chat = "\<lparr>id' = Some ''c1'', title = Some ''Greeting'', model = ''code'',
      messages = [\<lparr>role = ''user'', content = ''hi''\<rparr>, \<lparr>role = ''assistant'', content = ''hello''\<rparr>]\<rparr>"
  let ?d = "[(''c1.json'', Inr (JObj [(''id'', JStr ''c1''), (''title'', JStr ''Old'')]))] :: store"
  let ?d' = "[(''c1.json'', Inr (JObj
        [(''id'', JStr ''c1''), (''title'', JStr ''Greeting''), (''model'', JStr ''code''),
         (''timestamp'', JStr ''2024-05-01T12:00:00.000000''),
         (''messages'', JArr [JObj [(''role'', JStr ''user''), (''content'', JStr ''hi'')],
                              JObj [(''role'', JStr ''assistant''), (''content'', JStr ''hello'')]])]))] :: store"
  have run: "save_chat example_env ?d ?chat
      = Inr ([(''id'', JStr ''c1''), (''title'', JStr ''Greeting'')], ?d')"
    by (simp add: Let_def save_chat_def open_w_def example_env_def new_chat_id_def
        derive_title_def chat_data_def chat_path_def message_json_def)
  from save_then_get [OF run] obtain chat_id t where
    r: "[(''id'', JStr ''c1''), (''title'', JStr ''Greeting'')]
          = [(''id'', JStr chat_id), (''title'', opt_json t)]"
    and g: "get_chat example_env ?d' chat_id =
       Inr (JObj [(''id'', JStr chat_id), (''title'', opt_json t), (''model'', JStr (model ?chat)),
                  (''timestamp'', JStr (now example_env)),
                  (''messages'', JArr (map message_json (messages ?chat)))])"
    by blast
  from r have "chat_id = ''c1''" and "opt_json t = JStr ''Greeting''"
    by simp_all
  with g have "get_chat example_env ?d' ''c1'' =
       Inr (JObj [(''id'', JStr ''c1''), (''title'', JStr ''Greeting''), (''model'', JStr (model ?chat)),
                  (''timestamp'', JStr (now example_env)),
                  (''messages'', JArr (map message_json (messages ?chat)))])"
    by simp
  then have "get_chat example_env ?d' ''c1'' = Inr (JObj
        [(''id'', JStr ''c1''), (''title'', JStr ''Greeting''), (''model'', JStr ''code''),
         (''timestamp'', JStr ''2024-05-01T12:00:00.000000''),
         (''messages'', JArr [JObj [(''role'', JStr ''user''), (''content'', JStr ''hi'')],
                              JObj [(''role'', JStr ''assistant''), (''content'', JStr ''hello'')]])])"
    by (simp add: example_env_def message_json_def)
  with run show ?thesis
    by (rule conjI)
qed

text \<open>
  A request with the empty string as title: the record is stored, and loaded, with
  the title derived from the first user message.
\<close>

theorem save_then_get_counterexample:
  "save_chat example_env []
     \<lparr>id' = Some ''c1'', title = Some [], model = ''general'',
      messages = [\<lparr>role = ''user'', content = ''hi''\<rparr>]\<rparr>
   = Inr ([(''id'', JStr ''c1''), (''title'', JStr ''hi'')],
          [(''c1.json'', Inr (JObj
             [(''id'', JStr ''c1''), (''title'', JStr ''hi''), (''model'', JStr ''general''),
              (''timestamp'', JStr ''2024-05-01T12:00:00.000000''),
              (''messages'', JArr [JObj [(''role'', JStr ''user''), (''content'', JStr ''hi'')]])]))]) \<and>
   get_chat example_env
     [(''c1.json'', Inr (JObj
        [(''id'', JStr ''c1''), (''title'', JStr ''hi''), (''model'', JStr ''general''),
         (''timestamp'', JStr ''2024-05-01T12:00:00.000000''),
         (''messages'', JArr [JObj [(''role'', JStr ''user''), (''content'', JStr ''hi'')]])]))]
     ''c1''
   = Inr (JObj
        [(''id'', JStr ''c1''), (''title'', JStr ''hi''), (''model'', JStr ''general''),
         (''timestamp'', JStr ''2024-05-01T12:00:00.000000''),
         (''messages'', JArr [JObj [(''role'', JStr ''user''), (''content'', JStr ''hi'')]])])"
  by (simp add: Let_def save_chat_def open_w_def example_env_def new_chat_id_def derive_title_def
      chat_data_def chat_path_def message_json_def get_chat_def exists_def contains_def load_def)

lemma filter_first_user:
  assumes "msgs = before @ m # after" "role m = ''user''" "\<forall>x \<in> set before. role x \<noteq> ''user''"
  shows "filter (\<lambda>m. role m = ''user'') msgs = m # filter (\<lambda>m. role m = ''user'') after"
  using assms by simp

lemma derive_title_first_user:
  assumes "title chat = None \<or> title chat = Some []"
    and "messages chat = before @ m # after" "role m = ''user''"
    and "\<forall>x \<in> set before. role x \<noteq> ''user''"
  shows "derive_title chat =
     Some (if length (content m) > 50 then take 50 (content m) @ ''...'' else content m)"
proof -
  have "filter (\<lambda>m. role m = ''user'') (messages chat)
      = m # filter (\<lambda>m. role m = ''user'') after"
    using assms(2-4) by (rule filter_first_user)
  moreover have "\<not> truthy (title chat)"
    using assms(1) by auto
  moreover have "messages chat \<noteq> []"
    using assms(2) by simp
  ultimately show ?thesis
    by (simp add: derive_title_def Let_def)
qed

lemma derive_title_no_user:
  assumes "title chat = None \<or> title chat = Some []"
    and "messages chat \<noteq> []" "\<forall>x \<in> set (messages chat). role x \<noteq> ''user''"
  shows "derive_title chat = Some ''Untitled Chat''"
proof -
  have "filter (\<lambda>m. role m = ''user'') (messages chat) = []"
    using assms(3) by (simp add: filter_empty_conv)
  moreover have "\<not> truthy (title chat)"
    using assms(1) by auto
  ultimately show ?thesis
    using assms(2) by (simp add: derive_title_def)
qed

lemma save_chat_title:
  "save_chat e d chat = Inr (response, d') \<Longrightarrow>
     map_of response ''title'' = Some (opt_json (derive_title chat))"
  using save_chat_Inr(1) [of e d chat response d'] by simp

text \<open>
  C3, as amended. For a save request without title (omitted, or empty) and with at
  least one message: if the first message with role \<open>user\<close> has a content of at most 50
  characters, that content is the title; if its content is longer, the title is its first
  50 characters followed by \<open>...\<close>; and if no message has role \<open>user\<close>, the title is
  \<open>Untitled Chat\<close>.
\<close>

theorem save_chat_derived_title:
  assumes "save_chat e d chat = Inr (response, d')"
    and "title chat = None \<or> title chat = Some []"
    and "messages chat \<noteq> []"
  shows "(\<forall>before m after.
            messages chat = before @ m # after \<and> role m = ''user'' \<and>
            (\<forall>x \<in> set before. role x \<noteq> ''user'') \<longrightarrow>
            map_of response ''title'' =
              Some (JStr (if length (content m) \<le> 50 then content m
                          else take 50 (content m) @ ''...''))) \<and>
         ((\<forall>x \<in> set (messages chat). role x \<noteq> ''user'') \<longrightarrow>
            map_of response ''title'' = Some (JStr ''Untitled Chat''))"
proof (intro conjI allI impI)
  fix before m after
  assume "messages chat = before @ m # after \<and> role m = ''user'' \<and>
            (\<forall>x \<in> set before. role x \<noteq> ''user'')"
  then have "derive_title chat =
     Some (if length (content m) > 50 then take 50 (content m) @ ''...'' else content m)"
    using derive_title_first_user [OF assms(2)] by blast
  with save_chat_title [OF assms(1)]
  show "map_of response ''title'' =
      Some (JStr (if length (content m) \<le> 50 then content m else take 50 (content m) @ ''...''))"
    by (simp add: not_less [symmetric])
next
  assume "\<forall>x \<in> set (messages chat). role x \<noteq> ''user''"
  with assms(2,3) have "derive_title chat = Some ''Untitled Chat''"
    by (rule derive_title_no_user)
  with save_chat_title [OF assms(1)]
  show "map_of response ''title'' = Some (JStr ''Untitled Chat'')"
    by simp
qed


text \<open>
  The example of the specification, a first user message of 66 characters after a
  system message; and a request whose only message is the assistant's.
\<close>

theorem save_chat_derived_title_witness:
  "map_of [(''id'', JStr ''1b4e28ba-2fa1-41d2-983f-0e6c0a6f3c11''),
           (''title'', JStr ''Hello, how does this work and can you explain it i...'')] ''title''
     = Some (JStr ''Hello, how does this work and can you explain it i...'') \<and>
   save_chat example_env []
     \<lparr>id' = None, title = None, model = ''general'',
      messages = [\<lparr>role = ''system'', content = ''Be brief.''\<rparr>,
                  \<lparr>role = ''user'',
                   content = ''Hello, how does this work and can you explain it in detail please?''\<rparr>,
                  \<lparr>role = ''user'', content = ''Thanks''\<rparr>]\<rparr>
   = Inr ([(''id'', JStr ''1b4e28ba-2fa1-41d2-983f-0e6c0a6f3c11''),
           (''title'', JStr ''Hello, how does this work and can you explain it i...'')],
          [(''1b4e28ba-2fa1-41d2-983f-0e6c0a6f3c11.json'', Inr (JObj
             [(''id'', JStr ''1b4e28ba-2fa1-41d2-983f-0e6c0a6f3c11''),
              (''title'', JStr ''Hello, how does this work and can you explain it i...''),
              (''model'', JStr ''general''),
              (''timestamp'', JStr ''2024-05-01T12:00:00.000000''),
              (''messages'', JArr
                 [JObj [(''role'', JStr ''system''), (''content'', JStr ''Be brief.'')],
                  JObj [(''role'', JStr ''user''),
                        (''content'', JStr ''Hello, how does this work and can you explain it in detail please?'')],
                  JObj [(''role'', JStr ''user''), (''content'', JStr ''Thanks'')]])]))]) \<and>
   map_of [(''id'', JStr ''c2''), (''title'', JStr ''Untitled Chat'')] ''title''
     = Some (JStr ''Untitled Chat'') \<and>
   save_chat example_env []
     \<lparr>id' = Some ''c2'', title = None, model = ''code'',
      messages = [\<lparr>role = ''assistant'', content = ''Hi!''\<rparr>]\<rparr>
   = Inr ([(''id'', JStr ''c2''), (''title'', JStr ''Untitled Chat'')],
          [(''c2.json'', Inr (JObj
             [(''id'', JStr ''c2''), (''title'', JStr ''Untitled Chat''), (''model'', JStr ''code''),
              (''timestamp'', JStr ''2024-05-01T12:00:00.000000''),
              (''messages'', JArr [JObj [(''role'', JStr ''assistant''), (''content'', JStr ''Hi!'')]])]))])"
proof -
  let ?sys = "\<lparr>role = ''system'', content = ''Be brief.''\<rparr>"
  let ?usr = "\<lparr>role = ''user'',
                   content = ''Hello, how does this work and can you explain it in detail please?''\<rparr>"
  let ?more = "\<lparr>role = ''user'', content = ''Thanks''\<rparr>"
  let ?chat = "\<lparr>id' = None, title = None, model = ''general'', messages = [?sys, ?usr, ?more]\<rparr>"
  let ?chat2 = "\<lparr>id' = Some ''c2'', title = None, model = ''code'',
      messages = [\<lparr>role = ''assistant'', content = ''Hi!''\<rparr>]\<rparr>"
  let ?resp = "[(''id'', JStr ''1b4e28ba-2fa1-41d2-983f-0e6c0a6f3c11''),
           (''title'', JStr ''Hello, how does this work and can you explain it i...'')]"
  let ?resp2 = "[(''id'', JStr ''c2''), (''title'', JStr ''Untitled Chat'')]"
  let ?d = "[(''1b4e28ba-2fa1-41d2-983f-0e6c0a6f3c11.json'', Inr (JObj
             [(''id'', JStr ''1b4e28ba-2fa1-41d2-983f-0e6c0a6f3c11''),
              (''title'', JStr ''Hello, how does this work and can you explain it i...''),
              (''model'', JStr ''general''),
              (''timestamp'', JStr ''2024-05-01T12:00:00.000000''),
              (''messages'', JArr
                 [JObj [(''role'', JStr ''system''), (''content'', JStr ''Be brief.'')],
                  JObj [(''role'', JStr ''user''),
                        (''content'', JStr ''Hello, how does this work and can you explain it in detail please?'')],
                  JObj [(''role'', JStr ''user''), (''content'', JStr ''Thanks'')]])]))] :: store"
  let ?d2 = "[(''c2.json'', Inr (JObj
             [(''id'', JStr ''c2''), (''title'', JStr ''Untitled Chat''), (''model'', JStr ''code''),
              (''timestamp'', JStr ''2024-05-01T12:00:00.000000''),
              (''messages'', JArr [JObj [(''role'', JStr ''assistant''), (''content'', JStr ''Hi!'')]])]))] :: store"
  have run: "save_chat example_env [] ?chat = Inr (?resp, ?d)"
    by (simp add: Let_def save_chat_def open_w_def example_env_def new_chat_id_def derive_title_def
        chat_data_def chat_path_def message_json_def)
  have run2: "save_chat example_env [] ?chat2 = Inr (?resp2, ?d2)"
    by (simp add: Let_def save_chat_def open_w_def example_env_def new_chat_id_def derive_title_def
        chat_data_def chat_path_def message_json_def)
  have omitted: "title ?chat = None \<or> title ?chat = Some []"
    and omitted2: "title ?chat2 = None \<or> title ?chat2 = Some []"
    by simp_all
  have nonempty: "messages ?chat \<noteq> []" and nonempty2: "messages ?chat2 \<noteq> []"
    by simp_all
  have first: "messages ?chat = [?sys] @ ?usr # [?more] \<and> role ?usr = ''user'' \<and>
      (\<forall>x \<in> set [?sys]. role x \<noteq> ''user'')"
    by simp
  have none: "\<forall>x \<in> set (messages ?chat2). role x \<noteq> ''user''"
    by simp
  from save_chat_derived_title [OF run omitted nonempty, THEN conjunct1, rule_format, OF first]
  have a: "map_of ?resp ''title''
      = Some (JStr ''Hello, how does this work and can you explain it i...'')"
    by simp
  from save_chat_derived_title [OF run2 omitted2 nonempty2, THEN conjunct2, THEN mp, OF none]
  have b: "map_of ?resp2 ''title'' = Some (JStr ''Untitled Chat'')" .
  from a run b run2 show ?thesis
    by (intro conjI)
qed

text \<open>
  A request without title and without messages: the guard \<open>and chat.messages\<close> of
  line 137 skips the derivation, and the title stays \<open>None\<close>.
\<close>

theorem save_chat_derived_title_counterexample:
  "save_chat example_env []
     \<lparr>id' = Some ''c1'', title = None, model = ''general'', messages = []\<rparr>
   = Inr ([(''id'', JStr ''c1''), (''title'', JNull)],
          [(''c1.json'', Inr (JObj
             [(''id'', JStr ''c1''), (''title'', JNull), (''model'', JStr ''general''),
              (''timestamp'', JStr ''2024-05-01T12:00:00.000000''),
              (''messages'', JArr [])]))])"
  by (simp add: Let_def save_chat_def open_w_def example_env_def new_chat_id_def derive_title_def chat_data_def
      chat_path_def)

text \<open>
  C10. For a save request without title whose first user message has a content of
  exactly 50 characters, the title is that content, unchanged. The title is the first 50
  characters followed by \<open>...\<close> exactly when the content is longer than 50 characters.
\<close>

theorem save_chat_title_exactly_50:
  assumes "save_chat e d chat = Inr (response, d')"
    and "title chat = None \<or> title chat = Some []"
    and "messages chat = before @ m # after" "role m = ''user''"
    and "\<forall>x \<in> set before. role x \<noteq> ''user''"
  shows "(length (content m) = 50 \<longrightarrow> map_of response ''title'' = Some (JStr (content m))) \<and>
         (map_of response ''title'' = Some (JStr (take 50 (content m) @ ''...'')) \<longleftrightarrow>
            length (content m) > 50)"
proof -
  have "derive_title chat =
     Some (if length (content m) > 50 then take 50 (content m) @ ''...'' else content m)"
    using assms(2-5) by (rule derive_title_first_user)
  with save_chat_title [OF assms(1)]
  have t: "map_of response ''title'' =
     Some (JStr (if length (content m) > 50 then take 50 (content m) @ ''...'' else content m))"
    by simp
  have "take 50 (content m) @ ''...'' \<noteq> content m" if "length (content m) \<le> 50"
  proof
    assume "take 50 (content m) @ ''...'' = content m"
    then have "length (take 50 (content m) @ ''...'') = length (content m)"
      by simp
    with that show False
      by simp
  qed
  with t show ?thesis
    by (cases "length (content m) > 50") auto
qed

text \<open>
  A first user message of exactly 50 characters.
\<close>

theorem save_chat_title_exactly_50_witness:
  "length ''Explain the difference between a list and a tuple.'' = 50 \<and>
   map_of [(''id'', JStr ''c3''),
           (''title'', JStr ''Explain the difference between a list and a tuple.'')] ''title''
     = Some (JStr ''Explain the difference between a list and a tuple.'') \<and>
   save_chat example_env []
     \<lparr>id' = Some ''c3'', title = None, model = ''general'',
      messages = [\<lparr>role = ''user'',
                   content = ''Explain the difference between a list and a tuple.''\<rparr>]\<rparr>
   = Inr ([(''id'', JStr ''c3''),
           (''title'', JStr ''Explain the difference between a list and a tuple.'')],
          [(''c3.json'', Inr (JObj
             [(''id'', JStr ''c3''),
              (''title'', JStr ''Explain the difference between a list and a tuple.''),
              (''model'', JStr ''general''),
              (''timestamp'', JStr ''2024-05-01T12:00:00.000000''),
              (''messages'', JArr
                 [JObj [(''role'', JStr ''user''),
                        (''content'', JStr ''Explain the difference between a list and a tuple.'')]])]))])"
proof -
  let ?usr = "\<lparr>role = ''user'',
                   content = ''Explain the difference between a list and a tuple.''\<rparr>"
  let ?chat = "\<lparr>id' = Some ''c3'', title = None, model = ''general'', messages = [?usr]\<rparr>"
  let ?resp = "[(''id'', JStr ''c3''),
           (''title'', JStr ''Explain the difference between a list and a tuple.'')]"
  let ?d = "[(''c3.json'', Inr (JObj
             [(''id'', JStr ''c3''),
              (''title'', JStr ''Explain the difference between a list and a tuple.''),
              (''model'', JStr ''general''),
              (''timestamp'', JStr ''2024-05-01T12:00:00.000000''),
              (''messages'', JArr
                 [JObj [(''role'', JStr ''user''),
                        (''content'', JStr ''Explain the difference between a list and a tuple.'')]])]))] :: store"
  have len: "length ''Explain the difference between a list and a tuple.'' = 50"
    by simp
  have run: "save_chat example_env [] ?chat = Inr (?resp, ?d)"
    by (simp add: Let_def save_chat_def open_w_def example_env_def new_chat_id_def derive_title_def
        chat_data_def chat_path_def message_json_def)
  have omitted: "title ?chat = None \<or> title ?chat = Some []"
    by simp
  have msgs: "messages ?chat = [] @ ?usr # []"
    by simp
  have user: "role ?usr = ''user''"
    by simp
  have before: "\<forall>x \<in> set []. role x \<noteq> ''user''"
    by simp
  from save_chat_title_exactly_50 [OF run omitted msgs user before, THEN conjunct1]
  have "map_of ?resp ''title''
      = Some (JStr ''Explain the difference between a list and a tuple.'')"
    using len by simp
  with len show ?thesis
    using run by (intro conjI)
qed

end
